theory Spec2Isabelle
  imports Main
begin

section \<open>Exceptions (exception.py)\<close>

text \<open>
  Every class of \<^verbatim>\<open>exception.py\<close> derives from \<^verbatim>\<open>BaseAPIException\<close>, whose
  constructor stores \<^verbatim>\<open>message\<close>, \<^verbatim>\<open>status_code\<close>,
  \<^verbatim>\<open>error_code or self.__class__.__name__\<close> and \<^verbatim>\<open>details or {}\<close>.
  An exception object is a record of these four fields together with its class.
\<close>

datatype exc_class =
    InvalidTokenError
  | AuthorizationError
  | EmailNotFoundError
  | DraftNotFoundError
  | CalendarEventNotFoundError
  | GmailAPIError
  | GmailQuotaExceededError
  | ExternalServiceError
  | ExternalServiceTimeoutError

datatype detail_value = DInt int | DStr string

record api_exception =
  exc_class :: exc_class
  message :: string
  status_code :: int
  error_code :: string
  details :: "(string \<times> detail_value) list"

fun class_name :: "exc_class \<Rightarrow> string" where
  "class_name InvalidTokenError = ''InvalidTokenError''"
| "class_name AuthorizationError = ''AuthorizationError''"
| "class_name EmailNotFoundError = ''EmailNotFoundError''"
| "class_name DraftNotFoundError = ''DraftNotFoundError''"
| "class_name CalendarEventNotFoundError = ''CalendarEventNotFoundError''"
| "class_name GmailAPIError = ''GmailAPIError''"
| "class_name GmailQuotaExceededError = ''GmailQuotaExceededError''"
| "class_name ExternalServiceError = ''ExternalServiceError''"
| "class_name ExternalServiceTimeoutError = ''ExternalServiceTimeoutError''"

definition BaseAPIException ::
  "exc_class \<Rightarrow> string \<Rightarrow> int \<Rightarrow> string \<Rightarrow> (string \<times> detail_value) list option \<Rightarrow> api_exception"
where
  "BaseAPIException c msg sc ec ds =
     \<lparr>exc_class = c, message = msg, status_code = sc,
      error_code = (if ec = [] then class_name c else ec),
      details = (case ds of None \<Rightarrow> [] | Some d \<Rightarrow> d)\<rparr>"

definition mk_InvalidTokenError :: "string \<Rightarrow> api_exception" where
  "mk_InvalidTokenError msg = BaseAPIException InvalidTokenError msg 401 ''INVALID_TOKEN'' None"

definition mk_AuthorizationError :: "string \<Rightarrow> api_exception" where
  "mk_AuthorizationError msg =
     BaseAPIException AuthorizationError msg 403 ''AUTHORIZATION_ERROR'' None"

definition mk_GmailAPIError ::
  "string \<Rightarrow> (string \<times> detail_value) list option \<Rightarrow> api_exception" where
  "mk_GmailAPIError msg ds = BaseAPIException GmailAPIError msg 500 ''GMAIL_API_ERROR'' ds"

definition mk_GmailQuotaExceededError :: "string \<Rightarrow> api_exception" where
  "mk_GmailQuotaExceededError msg =
     BaseAPIException GmailQuotaExceededError msg 429 ''GMAIL_QUOTA_EXCEEDED'' None"

text \<open>
  \<^verbatim>\<open>ExternalServiceError(service_name, message=None)\<close> uses
  \<^verbatim>\<open>message or f"External service '{service_name}' error"\<close>; an empty message
  is falsy in Python and is replaced as well.
\<close>

definition mk_ExternalServiceError :: "string \<Rightarrow> string option \<Rightarrow> api_exception" where
  "mk_ExternalServiceError service_name msg =
     BaseAPIException ExternalServiceError
       (case msg of
          None \<Rightarrow> ''External service '' @ [CHR 0x27] @ service_name @ [CHR 0x27] @ '' error''
        | Some m \<Rightarrow>
            if m = [] then ''External service '' @ [CHR 0x27] @ service_name @ [CHR 0x27] @ '' error''
            else m)
       503 ''EXTERNAL_SERVICE_ERROR'' None"

definition mk_ExternalServiceTimeoutError :: "string \<Rightarrow> api_exception" where
  "mk_ExternalServiceTimeoutError service_name =
     BaseAPIException ExternalServiceTimeoutError
       (''External service '' @ [CHR 0x27] @ service_name @ [CHR 0x27] @ '' timeout'')
       504 ''EXTERNAL_SERVICE_TIMEOUT'' None"

section \<open>Error conversion utilities (exception_handling.py)\<close>

text \<open>
  A \<^verbatim>\<open>googleapiclient.errors.HttpError\<close> carries the provider's response; the
  utilities read only \<^verbatim>\<open>exc.resp.status\<close>. The body is kept in the record to
  show that it is never copied into the converted exception.
\<close>

record http_error =
  resp_status :: int
  content :: string

text \<open>
  \<^verbatim>\<open>handle_google_api_error\<close> always raises; the model returns the exception it
  raises. The branches are in the order of the source: 401, 403, 429, 404, else.
\<close>

definition handle_google_api_error :: "http_error \<Rightarrow> string \<Rightarrow> api_exception" where
  "handle_google_api_error exc operation =
     (if resp_status exc = 401 then mk_InvalidTokenError ''Google API authentication failed''
      else if resp_status exc = 403 then mk_AuthorizationError ''Google API access forbidden''
      else if resp_status exc = 429 then mk_GmailQuotaExceededError ''Google API quota exceeded''
      else if resp_status exc = 404 then
        mk_GmailAPIError (''Google API resource not found during '' @ operation) None
      else
        mk_GmailAPIError (''Google API error during '' @ operation)
          (Some [(''status_code'', DInt (resp_status exc))]))"

text \<open>
  A \<^verbatim>\<open>requests.exceptions.RequestException\<close> is described by what the two
  \<^verbatim>\<open>isinstance\<close> tests of the source see (a \<^verbatim>\<open>ConnectTimeout\<close> is both a
  \<^verbatim>\<open>Timeout\<close> and a \<^verbatim>\<open>ConnectionError\<close>) and by its text \<^verbatim>\<open>str(exc)\<close>.
\<close>

record request_exception =
  is_Timeout :: bool
  is_ConnectionError :: bool
  exc_text :: string

definition handle_request_error :: "request_exception \<Rightarrow> string \<Rightarrow> api_exception" where
  "handle_request_error exc service_name =
     (if is_Timeout exc then mk_ExternalServiceTimeoutError service_name
      else if is_ConnectionError exc then
        mk_ExternalServiceError service_name (Some ''Connection error'')
      else mk_ExternalServiceError service_name (Some (exc_text exc)))"


subsection \<open>The table of the specification\<close>

text \<open>
  The second definition of the normalisation follows the words of the specification's
  table: the remote signal is a provider status or a transport fault, the outcome is one of
  the seven named kinds. \<open>outcome_of\<close> reads the kind off the class of the exception
  that the code raises (the three \<^verbatim>\<open>...NotFoundError\<close> classes of
  \<^verbatim>\<open>exception.py\<close> are the resource-kind-specific not-found errors). A provider
  error never carries a status from 200 to 299, so the last row of the table is the
  \<open>else\<close> of the definition.
\<close>

datatype remote_signal = HttpStatus int | NetworkTimeout | NetworkConnectionFailure

datatype normalized_outcome =
    OutInvalidToken
  | OutAuthorization
  | OutNotFound
  | OutQuotaExceeded
  | OutServiceTimeout
  | OutServiceError
  | OutProviderError

definition spec_error_table :: "remote_signal \<Rightarrow> normalized_outcome" where
  "spec_error_table sig =
     (case sig of
        HttpStatus s \<Rightarrow>
          (if s = 401 then OutInvalidToken
           else if s = 403 then OutAuthorization
           else if s = 404 then OutNotFound
           else if s = 429 then OutQuotaExceeded
           else OutProviderError)
      | NetworkTimeout \<Rightarrow> OutServiceTimeout
      | NetworkConnectionFailure \<Rightarrow> OutServiceError)"

fun outcome_of_class :: "exc_class \<Rightarrow> normalized_outcome" where
  "outcome_of_class InvalidTokenError = OutInvalidToken"
| "outcome_of_class AuthorizationError = OutAuthorization"
| "outcome_of_class EmailNotFoundError = OutNotFound"
| "outcome_of_class DraftNotFoundError = OutNotFound"
| "outcome_of_class CalendarEventNotFoundError = OutNotFound"
| "outcome_of_class GmailAPIError = OutProviderError"
| "outcome_of_class GmailQuotaExceededError = OutQuotaExceeded"
| "outcome_of_class ExternalServiceError = OutServiceError"
| "outcome_of_class ExternalServiceTimeoutError = OutServiceTimeout"

definition outcome_of :: "api_exception \<Rightarrow> normalized_outcome" where
  "outcome_of e = outcome_of_class (exc_class e)"

section \<open>Python exceptions other than the API's own\<close>

text \<open>
  The exceptions of the libraries that the handlers can meet: a missing dictionary key, the
  faults of \<^verbatim>\<open>base64\<close> and of \<^verbatim>\<open>bytes.decode\<close>, a constraint violation reported
  by the database at commit, the \<^verbatim>\<open>googleapiclient.errors.HttpError\<close> that a provider
  call raises for an error response, the faults of a provider call that are not an
  \<^verbatim>\<open>HttpError\<close> (a transport fault such as a timeout or a connection failure, a failed
  token refresh), and the framework's \<^verbatim>\<open>HTTPException\<close> with its status and detail,
  which the handlers raise themselves.
\<close>

datatype py_exception =
    HttpError http_error
  | KeyError string
  | ValueError string
  | BinasciiError string
  | UnicodeDecodeError
  | IntegrityError string
  | TransportTimeout string
  | TransportConnectionError string
  | RefreshError string
  | RaisedHTTPException int string

section \<open>Decoding a body (base64.urlsafe_b64decode, bytes.decode)\<close>

text \<open>
  \<^verbatim>\<open>extract_body\<close> calls \<^verbatim>\<open>base64.urlsafe_b64decode(data).decode('utf-8')\<close>. Both are
  functions of the Python library, modelled here as the library defines them: the string must
  be ASCII, \<^verbatim>\<open>-\<close> and \<^verbatim>\<open>_\<close> stand for \<^verbatim>\<open>+\<close> and \<^verbatim>\<open>/\<close>, and the decoder of
  \<^verbatim>\<open>binascii.a2b_base64\<close> in its default (non-strict) mode skips every character outside
  the alphabet, stops at a completed padding and raises when the data characters do not fill
  the last quad. Bytes and characters are both \<^typ>\<open>char\<close>; a Python string is held as its
  UTF-8 bytes, so decoding is the check that the bytes are well-formed UTF-8.
\<close>

definition table_a2b_base64 :: "char \<Rightarrow> nat option" where
  "table_a2b_base64 c =
     (let n = (of_char c :: nat) in
      if 65 \<le> n \<and> n \<le> 90 then Some (n - 65)
      else if 97 \<le> n \<and> n \<le> 122 then Some (n - 71)
      else if 48 \<le> n \<and> n \<le> 57 then Some (n + 4)
      else if n = 43 then Some 62
      else if n = 47 then Some 63
      else None)"

text \<open>
  The loop of \<^verbatim>\<open>a2b_base64\<close> with its variables \<^verbatim>\<open>quad_pos\<close>, \<^verbatim>\<open>leftchar\<close> and
  \<^verbatim>\<open>pads\<close>. The shifts of the C source are written arithmetically: a byte is
  \<^verbatim>\<open>(leftchar << 2) | (this_ch >> 4)\<close>, the two operands sharing no bit.
\<close>

fun a2b_base64_loop ::
  "char list \<Rightarrow> nat \<Rightarrow> nat \<Rightarrow> nat \<Rightarrow> char list \<Rightarrow> py_exception + char list" where
  "a2b_base64_loop [] quad_pos leftchar pads out =
     (if quad_pos = 0 then Inr out
      else if quad_pos = 1 then Inl (BinasciiError ''Invalid base64-encoded string'')
      else Inl (BinasciiError ''Incorrect padding''))"
| "a2b_base64_loop (c # cs) quad_pos leftchar pads out =
     (if c = CHR ''='' then
        (if 2 \<le> quad_pos then
           (if 4 \<le> quad_pos + (pads + 1) then Inr out
            else a2b_base64_loop cs quad_pos leftchar (pads + 1) out)
         else a2b_base64_loop cs quad_pos leftchar pads out)
      else
        (case table_a2b_base64 c of
           None \<Rightarrow> a2b_base64_loop cs quad_pos leftchar pads out
         | Some v \<Rightarrow>
             (if quad_pos = 0 then a2b_base64_loop cs 1 v 0 out
              else if quad_pos = 1 then
                a2b_base64_loop cs 2 (v mod 16) 0 (out @ [char_of (leftchar * 4 + v div 16)])
              else if quad_pos = 2 then
                a2b_base64_loop cs 3 (v mod 4) 0 (out @ [char_of (leftchar * 16 + v div 4)])
              else a2b_base64_loop cs 0 0 0 (out @ [char_of (leftchar * 64 + v)]))))"

definition urlsafe_translate :: "char \<Rightarrow> char" where
  "urlsafe_translate c =
     (if c = CHR ''-'' then CHR ''+'' else if c = CHR ''_'' then CHR ''/'' else c)"

definition urlsafe_b64decode :: "string \<Rightarrow> py_exception + char list" where
  "urlsafe_b64decode s =
     (if list_ex (\<lambda>c. 128 \<le> (of_char c :: nat)) s then
        Inl (ValueError ''string argument should contain only ASCII characters'')
      else a2b_base64_loop (map urlsafe_translate s) 0 0 0 [])"

definition in_range :: "nat \<Rightarrow> nat \<Rightarrow> char \<Rightarrow> bool" where
  "in_range lo hi c = (lo \<le> (of_char c :: nat) \<and> (of_char c :: nat) \<le> hi)"

text \<open>Well-formed UTF-8, by the ranges of the Unicode standard (no overlong form, no
  surrogate, nothing above U+10FFFF), which is what the strict decoder accepts.\<close>

fun utf8_valid :: "char list \<Rightarrow> bool" where
  "utf8_valid [] = True"
| "utf8_valid (b # bs) =
     (if in_range 0 127 b then utf8_valid bs
      else if in_range 194 223 b then
        (case bs of c1 # r \<Rightarrow> in_range 128 191 c1 \<and> utf8_valid r | _ \<Rightarrow> False)
      else if in_range 224 239 b then
        (case bs of
           c1 # c2 # r \<Rightarrow>
             (if of_char b = (224::nat) then in_range 160 191 c1
              else if of_char b = (237::nat) then in_range 128 159 c1
              else in_range 128 191 c1)
             \<and> in_range 128 191 c2 \<and> utf8_valid r
         | _ \<Rightarrow> False)
      else if in_range 240 244 b then
        (case bs of
           c1 # c2 # c3 # r \<Rightarrow>
             (if of_char b = (240::nat) then in_range 144 191 c1
              else if of_char b = (244::nat) then in_range 128 143 c1
              else in_range 128 191 c1)
             \<and> in_range 128 191 c2 \<and> in_range 128 191 c3 \<and> utf8_valid r
         | _ \<Rightarrow> False)
      else False)"

definition decode_utf8 :: "char list \<Rightarrow> py_exception + string" where
  "decode_utf8 bs = (if utf8_valid bs then Inr bs else Inl UnicodeDecodeError)"

definition b64_text :: "string \<Rightarrow> py_exception + string" where
  "b64_text d = (case urlsafe_b64decode d of Inl e \<Rightarrow> Inl e | Inr bs \<Rightarrow> decode_utf8 bs)"

section \<open>Parsing a remote message (extra/service.py)\<close>

text \<open>
  A part of a payload is the dictionary of the provider's JSON: its headers (name and value),
  \<^verbatim>\<open>mimeType\<close>, \<^verbatim>\<open>body.data\<close> and \<^verbatim>\<open>parts\<close>. A key that is absent is
  \<open>None\<close> (for \<^verbatim>\<open>parts\<close> and \<^verbatim>\<open>headers\<close>, the empty list, which the code does
  not tell from an absent key).
\<close>

datatype part =
  Part (part_headers: "(string \<times> string) list") (mimeType: "string option")
       (body_data: "string option") (parts: "part list")

text \<open>
  \<^verbatim>\<open>extract_body\<close> assigns to the two \<^verbatim>\<open>nonlocal\<close> variables \<^verbatim>\<open>body_text\<close> and
  \<^verbatim>\<open>body_html\<close>: the model passes the pair along and returns it. A part of type
  \<^verbatim>\<open>text/plain\<close> or \<^verbatim>\<open>text/html\<close> is never descended into; a decoding fault
  leaves the function as an exception.
\<close>

fun extract_body :: "part \<Rightarrow> string \<times> string \<Rightarrow> py_exception + string \<times> string"
and extract_body_parts :: "part list \<Rightarrow> string \<times> string \<Rightarrow> py_exception + string \<times> string"
where
  "extract_body (Part hs mt bd ps) (body_text, body_html) =
     (if mt = Some ''text/plain'' then
        (let data = (case bd of None \<Rightarrow> [] | Some d \<Rightarrow> d) in
         if data \<noteq> [] then
           (case b64_text data of Inl e \<Rightarrow> Inl e | Inr t \<Rightarrow> Inr (t, body_html))
         else Inr (body_text, body_html))
      else if mt = Some ''text/html'' then
        (let data = (case bd of None \<Rightarrow> [] | Some d \<Rightarrow> d) in
         if data \<noteq> [] then
           (case b64_text data of Inl e \<Rightarrow> Inl e | Inr t \<Rightarrow> Inr (body_text, t))
         else Inr (body_text, body_html))
      else if ps \<noteq> [] then extract_body_parts ps (body_text, body_html)
      else Inr (body_text, body_html))"
| "extract_body_parts [] st = Inr st"
| "extract_body_parts (p # ps) st =
     (case extract_body p st of Inl e \<Rightarrow> Inl e | Inr st' \<Rightarrow> extract_body_parts ps st')"

text \<open>
  The message of \<^verbatim>\<open>users().messages().get\<close>: the four keys that the code reads, and
  whether the dictionary holds any other key (\<^verbatim>\<open>snippet\<close>, \<^verbatim>\<open>historyId\<close>, ...),
  which decides whether it is the empty dictionary.
\<close>

record gmail_message =
  msg_id :: "string option"
  threadId :: "string option"
  labelIds :: "string list option"
  payload :: "part option"
  other_keys :: bool

text \<open>
  The dictionary returned by \<^verbatim>\<open>parse_message\<close>. \<^verbatim>\<open>labels\<close> is stored as
  \<^verbatim>\<open>json.dumps\<close> of the list kept here, and \<^verbatim>\<open>received_at\<close> is computed from the
  \<^verbatim>\<open>Date\<close> header kept here (the clock's time when it does not parse); serialisation and
  time are outside the model.
\<close>

record parsed_message =
  p_message_id :: string
  p_thread_id :: string
  p_subject :: string
  p_sender :: string
  p_recipient :: string
  p_body_text :: string
  p_body_html :: string
  p_labels :: "string list"
  p_date :: string
  p_is_read :: bool
  p_is_starred :: bool

definition header_value :: "(string \<times> string) list \<Rightarrow> string \<Rightarrow> string" where
  "header_value hs n = (case List.find (\<lambda>h. fst h = n) hs of None \<Rightarrow> [] | Some h \<Rightarrow> snd h)"

text \<open>\<^verbatim>\<open>payload = message.get('payload', {})\<close>: an absent payload is the empty dictionary.\<close>

definition message_payload :: "gmail_message \<Rightarrow> part" where
  "message_payload m = (case payload m of None \<Rightarrow> Part [] None None [] | Some p \<Rightarrow> p)"

definition parse_message :: "gmail_message \<Rightarrow> py_exception + parsed_message" where
  "parse_message m =
     (let pl = message_payload m;
          hs = part_headers pl;
          label_ids = (case labelIds m of None \<Rightarrow> [] | Some l \<Rightarrow> l)
      in case extract_body pl ([], []) of
           Inl e \<Rightarrow> Inl e
         | Inr (body_text, body_html) \<Rightarrow>
             (case msg_id m of
                None \<Rightarrow> Inl (KeyError ''id'')
              | Some i \<Rightarrow>
                  Inr \<lparr>p_message_id = i,
                       p_thread_id = (case threadId m of None \<Rightarrow> [] | Some t \<Rightarrow> t),
                       p_subject = header_value hs ''Subject'',
                       p_sender = header_value hs ''From'',
                       p_recipient = header_value hs ''To'',
                       p_body_text = body_text,
                       p_body_html = body_html,
                       p_labels = label_ids,
                       p_date = header_value hs ''Date'',
                       p_is_read = (''UNREAD'' \<notin> set label_ids),
                       p_is_starred = (''STARRED'' \<in> set label_ids)\<rparr>))"

subsection \<open>The leaves of a payload in depth-first order\<close>

text \<open>
  The data of the leaves of one MIME type that carry data, in the order in which
  \<^verbatim>\<open>extract_body\<close> meets them. \<open>spec_first_match_body\<close> is the body that the
  specification describes (the first such leaf wins; no leaf gives the empty string).
\<close>

fun leaf_data :: "string \<Rightarrow> part \<Rightarrow> string list"
and leaf_data_parts :: "string \<Rightarrow> part list \<Rightarrow> string list" where
  "leaf_data ty (Part hs mt bd ps) =
     (if mt = Some ''text/plain'' \<or> mt = Some ''text/html'' then
        (case bd of
           None \<Rightarrow> []
         | Some d \<Rightarrow> if mt = Some ty \<and> d \<noteq> [] then [d] else [])
      else leaf_data_parts ty ps)"
| "leaf_data_parts ty [] = []"
| "leaf_data_parts ty (p # ps) = leaf_data ty p @ leaf_data_parts ty ps"

definition spec_first_match_body :: "string \<Rightarrow> part \<Rightarrow> py_exception + string" where
  "spec_first_match_body ty p = (case leaf_data ty p of [] \<Rightarrow> Inr [] | d # _ \<Rightarrow> b64_text d)"

definition final_body :: "string list \<Rightarrow> string \<Rightarrow> string \<Rightarrow> bool" where
  "final_body ds before after =
     (if ds = [] then after = before else b64_text (last ds) = Inr after)"

text \<open>A payload with two \<^verbatim>\<open>text/plain\<close> leaves, whose bodies decode to \<^verbatim>\<open>A\<close> and
  \<^verbatim>\<open>B\<close>, and the message that carries it.\<close>

definition two_plain_leaves :: part where
  "two_plain_leaves =
     Part [(''Subject'', ''hello'')] (Some ''multipart/mixed'') None
       [Part [] (Some ''text/plain'') (Some ''QQ=='') [],
        Part [] (Some ''text/plain'') (Some ''Qg=='') []]"

definition two_plain_message :: gmail_message where
  "two_plain_message =
     \<lparr>msg_id = Some ''m1'', threadId = Some ''t1'', labelIds = Some [''INBOX'', ''UNREAD''],
      payload = Some two_plain_leaves, other_keys = True\<rparr>"

section \<open>The database (database.py)\<close>

text \<open>
  The two tables, with the columns of \<^verbatim>\<open>database.py\<close> (the prefix \<open>u_\<close> or \<open>e_\<close>
  keeps the field names apart). \<^verbatim>\<open>created_at\<close> is set by the clock and is left out; a
  nullable column that the code tests for emptiness is an \<open>option\<close>. A table is the list of
  its rows in insertion order.
\<close>

record user =
  u_id :: int
  u_email :: string
  u_name :: "string option"
  u_google_id :: "string option"
  u_access_token :: "string option"
  u_refresh_token :: "string option"
  u_is_active :: bool

record email =
  e_id :: int
  e_message_id :: string
  e_user_id :: int
  e_thread_id :: string
  e_subject :: string
  e_sender :: string
  e_recipient :: string
  e_body_text :: string
  e_body_html :: string
  e_is_read :: bool
  e_is_starred :: bool
  e_is_deleted :: bool
  e_labels :: "string list"
  e_received_date :: string

record db =
  users :: "user list"
  emails :: "email list"

text \<open>The primary key of a new row: the database's counter, one above every key in use.\<close>

definition next_id :: "int list \<Rightarrow> int" where
  "next_id ids = fold max ids 0 + 1"

text \<open>Python's \<^verbatim>\<open>not v\<close> for a nullable string: \<^verbatim>\<open>None\<close> and the empty string.\<close>

definition falsy :: "string option \<Rightarrow> bool" where
  "falsy v = (case v of None \<Rightarrow> True | Some s \<Rightarrow> s = [])"

text \<open>
  \<^verbatim>\<open>db.add\<close> only marks a row as pending (the session is created with
  \<^verbatim>\<open>autoflush=False\<close>); \<^verbatim>\<open>db.commit()\<close> inserts the pending rows in order. The
  column \<^verbatim>\<open>message_id\<close> is declared \<^verbatim>\<open>unique=True\<close>: inserting a row whose message
  id is in the table raises \<^verbatim>\<open>IntegrityError\<close>, and the transaction is lost as a whole.
  \<^verbatim>\<open>Email(user_id=user.id, **parsed_message)\<close> takes the other columns from the parsed
  message; \<^verbatim>\<open>is_deleted\<close> has the default \<^verbatim>\<open>False\<close>.
\<close>

definition insert_email :: "email list \<Rightarrow> int \<Rightarrow> parsed_message \<Rightarrow> py_exception + email list" where
  "insert_email rows uid p =
     (if p_message_id p \<in> set (map e_message_id rows) then
        Inl (IntegrityError ''emails.message_id'')
      else
        Inr (rows @
          [\<lparr>e_id = next_id (map e_id rows), e_message_id = p_message_id p, e_user_id = uid,
            e_thread_id = p_thread_id p, e_subject = p_subject p, e_sender = p_sender p,
            e_recipient = p_recipient p, e_body_text = p_body_text p,
            e_body_html = p_body_html p, e_is_read = p_is_read p,
            e_is_starred = p_is_starred p, e_is_deleted = False, e_labels = p_labels p,
            e_received_date = p_date p\<rparr>]))"

fun flush_emails :: "email list \<Rightarrow> int \<Rightarrow> parsed_message list \<Rightarrow> py_exception + email list" where
  "flush_emails rows uid [] = Inr rows"
| "flush_emails rows uid (p # ps) =
     (case insert_email rows uid p of Inl e \<Rightarrow> Inl e | Inr rows' \<Rightarrow> flush_emails rows' uid ps)"

text \<open>Changing a loaded row and committing is \<^verbatim>\<open>UPDATE emails SET ... WHERE id = pk\<close>.\<close>

definition update_email :: "email list \<Rightarrow> int \<Rightarrow> (email \<Rightarrow> email) \<Rightarrow> email list" where
  "update_email rows pk f = map (\<lambda>r. if e_id r = pk then f r else r) rows"

section \<open>The provider gateway (extra/service.py)\<close>

text \<open>
  A call to the provider either returns or raises. What the provider does is a parameter of
  the model: the record \<open>remote\<close> holds the outcome of each call that the handlers can
  make. Of a listing, only the value under \<^verbatim>\<open>messages\<close> is kept (absent or a list), and
  of each of its entries only the \<^verbatim>\<open>id\<close>, which is all the code reads. Every handler
  returns, besides the database and the response, the list of the effects it had, in order:
  commits and rollbacks, calls to the gateway, and lines printed.
\<close>

datatype 'a remote_result = Returned 'a | Raised py_exception

datatype gateway_call =
    BuildService
  | ListMessages
  | GetMessage string
  | ModifyMessage string "string list" "string list"
  | SendEmail
  | CreateDraft
  | UpdateDraft
  | DeleteDraft
  | SendDraft
  | CreateCalendarEvent
  | ListCalendarEvents
  | GetCalendarEvent
  | UpdateCalendarEvent
  | DeleteCalendarEvent

datatype event =
    DbCommit
  | DbRollback
  | Gateway gateway_call
  | Printed string py_exception

record remote =
  build_service_result :: "unit remote_result"
  list_messages_result :: "string list option remote_result"
  get_message_result :: "string \<Rightarrow> gmail_message remote_result"
  modify_message_result :: "string \<Rightarrow> string list \<Rightarrow> string list \<Rightarrow> unit remote_result"

text \<open>
  The methods of \<^verbatim>\<open>GmailService\<close>. Each wraps the provider call in
  \<^verbatim>\<open>try ... except HttpError\<close>: an \<^verbatim>\<open>HttpError\<close> is printed and replaced by
  \<^verbatim>\<open>[]\<close> or \<^verbatim>\<open>None\<close>; any other exception is not caught and leaves the method.
  \<^verbatim>\<open>build_service\<close> has no \<^verbatim>\<open>try\<close>.
\<close>

definition build_service :: "remote \<Rightarrow> event list \<times> (py_exception + unit)" where
  "build_service rem =
     ([Gateway BuildService],
      (case build_service_result rem of Returned x \<Rightarrow> Inr x | Raised e \<Rightarrow> Inl e))"

definition list_messages :: "remote \<Rightarrow> event list \<times> (py_exception + string list)" where
  "list_messages rem =
     (case list_messages_result rem of
        Returned results \<Rightarrow>
          ([Gateway ListMessages], Inr (case results of None \<Rightarrow> [] | Some ms \<Rightarrow> ms))
      | Raised (HttpError e) \<Rightarrow>
          ([Gateway ListMessages, Printed ''Error listing messages: '' (HttpError e)], Inr [])
      | Raised e \<Rightarrow> ([Gateway ListMessages], Inl e))"

definition get_message ::
  "remote \<Rightarrow> string \<Rightarrow> event list \<times> (py_exception + gmail_message option)" where
  "get_message rem message_id =
     (case get_message_result rem message_id of
        Returned m \<Rightarrow> ([Gateway (GetMessage message_id)], Inr (Some m))
      | Raised (HttpError e) \<Rightarrow>
          ([Gateway (GetMessage message_id),
            Printed ''Error getting message: '' (HttpError e)], Inr None)
      | Raised e \<Rightarrow> ([Gateway (GetMessage message_id)], Inl e))"

definition modify_message ::
  "remote \<Rightarrow> string \<Rightarrow> string list \<Rightarrow> string list \<Rightarrow> event list \<times> (py_exception + unit option)"
where
  "modify_message rem message_id add_labels remove_labels =
     (case modify_message_result rem message_id add_labels remove_labels of
        Returned x \<Rightarrow> ([Gateway (ModifyMessage message_id add_labels remove_labels)], Inr (Some x))
      | Raised (HttpError e) \<Rightarrow>
          ([Gateway (ModifyMessage message_id add_labels remove_labels),
            Printed ''Error modifying message: '' (HttpError e)], Inr None)
      | Raised e \<Rightarrow> ([Gateway (ModifyMessage message_id add_labels remove_labels)], Inl e))"

text \<open>
  The other ten operations have the same shape; none is called by the handlers modelled
  below, so each takes the outcome of its provider call as its argument. What they return in
  place of an \<^verbatim>\<open>HttpError\<close> is \<^verbatim>\<open>None\<close>, \<^verbatim>\<open>False\<close> for the two deletions
  (which return \<^verbatim>\<open>True\<close> otherwise) and \<^verbatim>\<open>[]\<close> for the listing of events (which
  returns \<^verbatim>\<open>events_result.get('items', [])\<close> otherwise).
\<close>

definition except_HttpError ::
  "'a remote_result \<Rightarrow> ('a \<Rightarrow> 'b) \<Rightarrow> 'b \<Rightarrow> string \<Rightarrow> event list \<times> (py_exception + 'b)" where
  "except_HttpError outcome on_return on_error text =
     (case outcome of
        Returned x \<Rightarrow> ([], Inr (on_return x))
      | Raised (HttpError e) \<Rightarrow> ([Printed text (HttpError e)], Inr on_error)
      | Raised e \<Rightarrow> ([], Inl e))"

definition send_email :: "'r remote_result \<Rightarrow> event list \<times> (py_exception + 'r option)" where
  "send_email outcome =
     (case except_HttpError outcome Some None ''Error sending email: '' of
        (ev, r) \<Rightarrow> (Gateway SendEmail # ev, r))"

definition create_draft :: "'r remote_result \<Rightarrow> event list \<times> (py_exception + 'r option)" where
  "create_draft outcome =
     (case except_HttpError outcome Some None ''Error creating draft: '' of
        (ev, r) \<Rightarrow> (Gateway CreateDraft # ev, r))"

definition update_draft :: "'r remote_result \<Rightarrow> event list \<times> (py_exception + 'r option)" where
  "update_draft outcome =
     (case except_HttpError outcome Some None ''Error updating draft: '' of
        (ev, r) \<Rightarrow> (Gateway UpdateDraft # ev, r))"

definition delete_draft :: "'r remote_result \<Rightarrow> event list \<times> (py_exception + bool)" where
  "delete_draft outcome =
     (case except_HttpError outcome (\<lambda>x. True) False ''Error deleting draft: '' of
        (ev, r) \<Rightarrow> (Gateway DeleteDraft # ev, r))"

definition send_draft :: "'r remote_result \<Rightarrow> event list \<times> (py_exception + 'r option)" where
  "send_draft outcome =
     (case except_HttpError outcome Some None ''Error sending draft: '' of
        (ev, r) \<Rightarrow> (Gateway SendDraft # ev, r))"

definition create_calendar_event ::
  "'r remote_result \<Rightarrow> event list \<times> (py_exception + 'r option)" where
  "create_calendar_event outcome =
     (case except_HttpError outcome Some None ''Error creating calendar event: '' of
        (ev, r) \<Rightarrow> (Gateway CreateCalendarEvent # ev, r))"

definition list_calendar_events ::
  "'r list option remote_result \<Rightarrow> event list \<times> (py_exception + 'r list)" where
  "list_calendar_events outcome =
     (case except_HttpError outcome (\<lambda>items. case items of None \<Rightarrow> [] | Some evs \<Rightarrow> evs) []
             ''Error listing calendar events: '' of
        (ev, r) \<Rightarrow> (Gateway ListCalendarEvents # ev, r))"

definition get_calendar_event ::
  "'r remote_result \<Rightarrow> event list \<times> (py_exception + 'r option)" where
  "get_calendar_event outcome =
     (case except_HttpError outcome Some None ''Error getting calendar event: '' of
        (ev, r) \<Rightarrow> (Gateway GetCalendarEvent # ev, r))"

definition update_calendar_event ::
  "'r remote_result \<Rightarrow> event list \<times> (py_exception + 'r option)" where
  "update_calendar_event outcome =
     (case except_HttpError outcome Some None ''Error updating calendar event: '' of
        (ev, r) \<Rightarrow> (Gateway UpdateCalendarEvent # ev, r))"

definition delete_calendar_event ::
  "'r remote_result \<Rightarrow> event list \<times> (py_exception + bool)" where
  "delete_calendar_event outcome =
     (case except_HttpError outcome (\<lambda>x. True) False ''Error deleting calendar event: '' of
        (ev, r) \<Rightarrow> (Gateway DeleteCalendarEvent # ev, r))"


section \<open>Responses\<close>

text \<open>
  What a handler answers: a JSON object, a mirror row, a redirect with the
  \<^verbatim>\<open>Location\<close> it sends, or an \<^verbatim>\<open>HTTPException\<close> with its status code and
  detail. Where the detail ends in \<^verbatim>\<open>str(e)\<close>, the exception is kept beside the text
  before it.
\<close>

datatype jvalue = JStr string | JBool bool

datatype response =
    Json "(string \<times> jvalue) list"
  | EmailResponse email
  | Redirect string
  | HTTPException int string "py_exception option"

text \<open>
  The framework's \<^verbatim>\<open>RedirectResponse(url)\<close> sends as \<^verbatim>\<open>Location\<close> the value
  \<^verbatim>\<open>quote(str(url), safe=":/%#?=@[]!$&'()*+,;")\<close>: \<^verbatim>\<open>urllib.parse.quote\<close> keeps
  letters, digits, \<^verbatim>\<open>_.-~\<close> and the characters named safe, and writes every other
  byte of the UTF-8 text as \<^verbatim>\<open>%\<close> and two upper-case hexadecimal digits.
\<close>

definition url_safe :: "char \<Rightarrow> bool" where
  "url_safe c =
     (let n = (of_char c :: nat) in
      (65 \<le> n \<and> n \<le> 90) \<or> (97 \<le> n \<and> n \<le> 122) \<or> (48 \<le> n \<and> n \<le> 57)
      \<or> c \<in> set ''_.-~:/%#?=@[]!$&()*+,;'' \<or> c = CHR 0x27)"

definition hex_digit :: "nat \<Rightarrow> char" where
  "hex_digit n = (if n < 10 then char_of (48 + n) else char_of (55 + n))"

definition quote :: "string \<Rightarrow> string" where
  "quote s =
     concat (map (\<lambda>c. if url_safe c then [c]
                      else [CHR ''%'', hex_digit ((of_char c :: nat) div 16),
                            hex_digit ((of_char c :: nat) mod 16)]) s)"

definition RedirectResponse :: "string \<Rightarrow> response" where
  "RedirectResponse url = Redirect (quote url)"

record result =
  db_after :: db
  response :: response
  log :: "event list"

text \<open>The decimal digits of a number, for \<^verbatim>\<open>f"Synced {synced_count} new emails"\<close>.\<close>

fun show_nat :: "nat \<Rightarrow> string" where
  "show_nat n =
     (if n < 10 then [char_of (48 + n)] else show_nat (n div 10) @ [char_of (48 + n mod 10)])"

declare show_nat.simps [simp del]

section \<open>routes/email.py\<close>

text \<open>
  \<^verbatim>\<open>if not full_message\<close> holds for \<^verbatim>\<open>None\<close> and for the empty dictionary, which
  is the message with no key at all.
\<close>

definition message_is_empty :: "gmail_message \<Rightarrow> bool" where
  "message_is_empty m =
     (msg_id m = None \<and> threadId m = None \<and> labelIds m = None \<and> payload m = None
      \<and> \<not> other_keys m)"

text \<open>Effects that happened before a computation are put in front of its own.\<close>

definition prepend :: "event list \<Rightarrow> event list \<times> 'a \<Rightarrow> event list \<times> 'a" where
  "prepend ev r = (ev @ fst r, snd r)"

text \<open>
  The \<^verbatim>\<open>for\<close> loop of \<^verbatim>\<open>sync_emails\<close>. The lookup of an existing row reads the
  table as committed (pending rows are not flushed), \<open>pending\<close> collects the rows given to
  \<^verbatim>\<open>db.add\<close>. An exception ends the loop.
\<close>

fun sync_loop ::
  "remote \<Rightarrow> email list \<Rightarrow> string list \<Rightarrow> parsed_message list \<Rightarrow> nat
     \<Rightarrow> event list \<times> (py_exception + parsed_message list \<times> nat)" where
  "sync_loop rem rows [] pending synced_count = ([], Inr (pending, synced_count))"
| "sync_loop rem rows (mid # mids) pending synced_count =
     (case List.find (\<lambda>r. e_message_id r = mid) rows of
        Some existing_email \<Rightarrow> sync_loop rem rows mids pending synced_count
      | None \<Rightarrow>
          (case get_message rem mid of
             (ev, Inl e) \<Rightarrow> (ev, Inl e)
           | (ev, Inr None) \<Rightarrow> prepend ev (sync_loop rem rows mids pending synced_count)
           | (ev, Inr (Some full_message)) \<Rightarrow>
               if message_is_empty full_message then
                 prepend ev (sync_loop rem rows mids pending synced_count)
               else
                 (case parse_message full_message of
                    Inl e \<Rightarrow> (ev, Inl e)
                  | Inr parsed \<Rightarrow>
                      prepend ev
                        (sync_loop rem rows mids (pending @ [parsed]) (synced_count + 1)))))"

text \<open>The body of the \<^verbatim>\<open>try\<close> of \<^verbatim>\<open>sync_emails\<close>, and the handler with its
  \<^verbatim>\<open>except Exception\<close>: rollback, then status 500.\<close>

definition sync_try :: "remote \<Rightarrow> user \<Rightarrow> db \<Rightarrow> event list \<times> (py_exception + db \<times> response)" where
  "sync_try rem usr d =
     (case build_service rem of
        (ev1, Inl e) \<Rightarrow> (ev1, Inl e)
      | (ev1, Inr service) \<Rightarrow>
          (case list_messages rem of
             (ev2, Inl e) \<Rightarrow> (ev1 @ ev2, Inl e)
           | (ev2, Inr messages) \<Rightarrow>
               (case sync_loop rem (emails d) messages [] 0 of
                  (ev3, Inl e) \<Rightarrow> (ev1 @ ev2 @ ev3, Inl e)
                | (ev3, Inr (pending, synced_count)) \<Rightarrow>
                    (case flush_emails (emails d) (u_id usr) pending of
                       Inl e \<Rightarrow> (ev1 @ ev2 @ ev3 @ [DbCommit], Inl e)
                     | Inr rows \<Rightarrow>
                         (ev1 @ ev2 @ ev3 @ [DbCommit],
                          Inr (d\<lparr>emails := rows\<rparr>,
                               Json [(''message'',
                                 JStr (''Synced '' @ show_nat synced_count @ '' new emails''))]))))))"

definition sync_emails :: "remote \<Rightarrow> string \<Rightarrow> db \<Rightarrow> result" where
  "sync_emails rem em d =
     (case List.find (\<lambda>u. u_email u = em) (users d) of
        None \<Rightarrow> \<lparr>db_after = d, response = HTTPException 404 ''User not found'' None, log = []\<rparr>
      | Some usr \<Rightarrow>
          (case sync_try rem usr d of
             (ev, Inr (d', resp)) \<Rightarrow> \<lparr>db_after = d', response = resp, log = ev\<rparr>
           | (ev, Inl e) \<Rightarrow>
               \<lparr>db_after = d, response = HTTPException 500 ''Sync failed: '' (Some e),
                log = ev @ [DbRollback]\<rparr>))"

text \<open>A sequence of sync requests, each with the provider as it answers at that time.\<close>

fun sync_many :: "(remote \<times> string) list \<Rightarrow> db \<Rightarrow> db" where
  "sync_many [] d = d"
| "sync_many ((rem, em) # reqs) d = sync_many reqs (db_after (sync_emails rem em d))"

text \<open>Whether a response is an \<^verbatim>\<open>HTTPException\<close>.\<close>

fun is_error :: "response \<Rightarrow> bool" where
  "is_error (HTTPException code detail exc) = True"
| "is_error other = False"

definition find_email :: "db \<Rightarrow> int \<Rightarrow> user \<Rightarrow> email option" where
  "find_email d email_id usr =
     List.find (\<lambda>r. e_id r = email_id \<and> e_user_id r = u_id usr \<and> e_is_deleted r = False)
       (emails d)"

definition get_email :: "int \<Rightarrow> string \<Rightarrow> db \<Rightarrow> result" where
  "get_email email_id em d =
     (case List.find (\<lambda>u. u_email u = em) (users d) of
        None \<Rightarrow> \<lparr>db_after = d, response = HTTPException 404 ''User not found'' None, log = []\<rparr>
      | Some usr \<Rightarrow>
          (case find_email d email_id usr of
             None \<Rightarrow>
               \<lparr>db_after = d, response = HTTPException 404 ''Email not found'' None, log = []\<rparr>
           | Some email_record \<Rightarrow>
               if \<not> e_is_read email_record then
                 \<lparr>db_after =
                    d\<lparr>emails := update_email (emails d) (e_id email_record)
                                  (\<lambda>r. r\<lparr>e_is_read := True\<rparr>)\<rparr>,
                  response = EmailResponse (email_record\<lparr>e_is_read := True\<rparr>),
                  log = [DbCommit]\<rparr>
               else \<lparr>db_after = d, response = EmailResponse email_record, log = []\<rparr>))"

text \<open>
  The block \<^verbatim>\<open>try: build_service; modify_message except Exception: print\<close> that the
  three star handlers share, with the text each prints.
\<close>

definition try_modify ::
  "remote \<Rightarrow> string \<Rightarrow> string list \<Rightarrow> string list \<Rightarrow> string \<Rightarrow> event list" where
  "try_modify rem message_id add_labels remove_labels failure_text =
     (case build_service rem of
        (ev1, Inl e) \<Rightarrow> ev1 @ [Printed failure_text e]
      | (ev1, Inr service) \<Rightarrow>
          (case modify_message rem message_id add_labels remove_labels of
             (ev2, Inl e) \<Rightarrow> ev1 @ ev2 @ [Printed failure_text e]
           | (ev2, Inr r) \<Rightarrow> ev1 @ ev2))"

definition toggle_star_email :: "remote \<Rightarrow> int \<Rightarrow> string \<Rightarrow> db \<Rightarrow> result" where
  "toggle_star_email rem email_id em d =
     (case List.find (\<lambda>u. u_email u = em) (users d) of
        None \<Rightarrow> \<lparr>db_after = d, response = HTTPException 404 ''User not found'' None, log = []\<rparr>
      | Some usr \<Rightarrow>
          (case find_email d email_id usr of
             None \<Rightarrow>
               \<lparr>db_after = d, response = HTTPException 404 ''Email not found'' None, log = []\<rparr>
           | Some email_record \<Rightarrow>
               (let starred = (\<not> e_is_starred email_record) in
                \<lparr>db_after =
                   d\<lparr>emails := update_email (emails d) (e_id email_record)
                                 (\<lambda>r. r\<lparr>e_is_starred := starred\<rparr>)\<rparr>,
                 response =
                   Json [(''message'', JStr (''Email '' @ (if starred then ''starred'' else ''unstarred''))),
                         (''is_starred'', JBool starred)],
                 log = DbCommit #
                   (if starred then
                      try_modify rem (e_message_id email_record) [''STARRED''] []
                        ''Failed to update star status in Gmail: ''
                    else
                      try_modify rem (e_message_id email_record) [] [''STARRED'']
                        ''Failed to update star status in Gmail: '')\<rparr>)))"

definition star_email :: "remote \<Rightarrow> int \<Rightarrow> string \<Rightarrow> db \<Rightarrow> result" where
  "star_email rem email_id em d =
     (case List.find (\<lambda>u. u_email u = em) (users d) of
        None \<Rightarrow> \<lparr>db_after = d, response = HTTPException 404 ''User not found'' None, log = []\<rparr>
      | Some usr \<Rightarrow>
          (case find_email d email_id usr of
             None \<Rightarrow>
               \<lparr>db_after = d, response = HTTPException 404 ''Email not found'' None, log = []\<rparr>
           | Some email_record \<Rightarrow>
               if e_is_starred email_record then
                 \<lparr>db_after = d,
                  response = Json [(''message'', JStr ''Email is already starred''),
                                   (''is_starred'', JBool True)],
                  log = []\<rparr>
               else
                 \<lparr>db_after =
                    d\<lparr>emails := update_email (emails d) (e_id email_record)
                                  (\<lambda>r. r\<lparr>e_is_starred := True\<rparr>)\<rparr>,
                  response = Json [(''message'', JStr ''Email starred successfully''),
                                   (''is_starred'', JBool True)],
                  log = DbCommit #
                    try_modify rem (e_message_id email_record) [''STARRED''] []
                      ''Failed to star email in Gmail: ''\<rparr>))"

definition unstar_email :: "remote \<Rightarrow> int \<Rightarrow> string \<Rightarrow> db \<Rightarrow> result" where
  "unstar_email rem email_id em d =
     (case List.find (\<lambda>u. u_email u = em) (users d) of
        None \<Rightarrow> \<lparr>db_after = d, response = HTTPException 404 ''User not found'' None, log = []\<rparr>
      | Some usr \<Rightarrow>
          (case find_email d email_id usr of
             None \<Rightarrow>
               \<lparr>db_after = d, response = HTTPException 404 ''Email not found'' None, log = []\<rparr>
           | Some email_record \<Rightarrow>
               if \<not> e_is_starred email_record then
                 \<lparr>db_after = d,
                  response = Json [(''message'', JStr ''Email is not starred''),
                                   (''is_starred'', JBool False)],
                  log = []\<rparr>
               else
                 \<lparr>db_after =
                    d\<lparr>emails := update_email (emails d) (e_id email_record)
                                  (\<lambda>r. r\<lparr>e_is_starred := False\<rparr>)\<rparr>,
                  response = Json [(''message'', JStr ''Email unstarred successfully''),
                                   (''is_starred'', JBool False)],
                  log = DbCommit #
                    try_modify rem (e_message_id email_record) [] [''STARRED'']
                      ''Failed to unstar email in Gmail: ''\<rparr>))"

definition delete_email :: "int \<Rightarrow> string \<Rightarrow> db \<Rightarrow> result" where
  "delete_email email_id em d =
     (case List.find (\<lambda>u. u_email u = em) (users d) of
        None \<Rightarrow> \<lparr>db_after = d, response = HTTPException 404 ''User not found'' None, log = []\<rparr>
      | Some usr \<Rightarrow>
          (case List.find (\<lambda>r. e_id r = email_id \<and> e_user_id r = u_id usr) (emails d) of
             None \<Rightarrow>
               \<lparr>db_after = d, response = HTTPException 404 ''Email not found'' None, log = []\<rparr>
           | Some email_record \<Rightarrow>
               \<lparr>db_after =
                  d\<lparr>emails := update_email (emails d) (e_id email_record)
                                (\<lambda>r. r\<lparr>e_is_deleted := True\<rparr>)\<rparr>,
                response = Json [(''message'', JStr ''Email deleted'')],
                log = [DbCommit]\<rparr>))"


section \<open>routes/auth.py\<close>

text \<open>
  The OAuth provider is a parameter as well: the outcome of the token exchange for a code,
  and of the identity endpoint for an access token. The identity is the dictionary of the
  provider's JSON, as a list of keys and values.
\<close>

record credentials =
  token :: string
  cred_refresh_token :: "string option"

record oauth_provider =
  exchange_result :: "string \<Rightarrow> credentials remote_result"
  userinfo_result :: "string \<Rightarrow> (string \<times> string) list remote_result"

definition exchange_code_for_tokens :: "oauth_provider \<Rightarrow> string \<Rightarrow> py_exception + credentials" where
  "exchange_code_for_tokens prov code =
     (case exchange_result prov code of Returned c \<Rightarrow> Inr c | Raised e \<Rightarrow> Inl e)"

definition get_user_info ::
  "oauth_provider \<Rightarrow> string \<Rightarrow> event list \<times> (string \<times> string) list option" where
  "get_user_info prov access_token =
     (case userinfo_result prov access_token of
        Returned info \<Rightarrow> ([], Some info)
      | Raised e \<Rightarrow> ([Printed ''Error getting user info: '' e], None))"

text \<open>
  The columns \<^verbatim>\<open>email\<close> and \<^verbatim>\<open>google_id\<close> of \<^verbatim>\<open>users\<close> are declared
  \<^verbatim>\<open>unique=True\<close>; a unique column admits any number of \<^verbatim>\<open>NULL\<close>s.
\<close>

definition update_user :: "user list \<Rightarrow> int \<Rightarrow> (user \<Rightarrow> user) \<Rightarrow> user list" where
  "update_user rows pk f = map (\<lambda>r. if u_id r = pk then f r else r) rows"

definition google_id_taken :: "user list \<Rightarrow> int \<Rightarrow> string option \<Rightarrow> bool" where
  "google_id_taken rows pk g = (g \<noteq> None \<and> list_ex (\<lambda>r. u_id r \<noteq> pk \<and> u_google_id r = g) rows)"

definition dict_get :: "(string \<times> string) list \<Rightarrow> string \<Rightarrow> string \<Rightarrow> string" where
  "dict_get dict k dflt = (case map_of dict k of None \<Rightarrow> dflt | Some v \<Rightarrow> v)"

text \<open>The branch \<^verbatim>\<open>if user:\<close> of \<^verbatim>\<open>callback\<close>, in the order of the source:
  tokens, then \<^verbatim>\<open>google_id\<close> if empty, then \<^verbatim>\<open>name\<close> if empty.\<close>

definition updated_user ::
  "user \<Rightarrow> credentials \<Rightarrow> (string \<times> string) list \<Rightarrow> py_exception + user" where
  "updated_user usr cr user_info =
     (let u1 = usr\<lparr>u_access_token := Some (token cr), u_refresh_token := cred_refresh_token cr\<rparr>
      in case (if falsy (u_google_id u1) then
                 (case map_of user_info ''id'' of
                    None \<Rightarrow> Inl (KeyError ''id'')
                  | Some gid \<Rightarrow> Inr (u1\<lparr>u_google_id := Some gid\<rparr>))
               else Inr u1) of
           Inl e \<Rightarrow> Inl e
         | Inr u2 \<Rightarrow>
             Inr (if falsy (u_name u2) then u2\<lparr>u_name := Some (dict_get user_info ''name'' [])\<rparr>
                  else u2))"

text \<open>The f-string \<^verbatim>\<open>f"/auth/success?email={user.email}&name={user.name}"\<close>; a
  name that is \<^verbatim>\<open>None\<close> is formatted as \<^verbatim>\<open>None\<close>.\<close>

definition success_url :: "user \<Rightarrow> string" where
  "success_url usr =
     ''/auth/success?email='' @ u_email usr @ ''&name='' @
       (case u_name usr of None \<Rightarrow> ''None'' | Some n \<Rightarrow> n)"

text \<open>Lines 33 to 57 of \<^verbatim>\<open>routes/auth.py\<close>: lookup by email, update or creation,
  commit, redirect.\<close>

definition upsert_user ::
  "db \<Rightarrow> credentials \<Rightarrow> (string \<times> string) list \<Rightarrow> string
     \<Rightarrow> event list \<times> (py_exception + db \<times> response)" where
  "upsert_user d cr user_info em =
     (case List.find (\<lambda>u. u_email u = em) (users d) of
        Some usr \<Rightarrow>
          (case updated_user usr cr user_info of
             Inl e \<Rightarrow> ([], Inl e)
           | Inr usr' \<Rightarrow>
               if u_google_id usr' \<noteq> u_google_id usr
                  \<and> google_id_taken (users d) (u_id usr) (u_google_id usr')
               then ([DbCommit], Inl (IntegrityError ''users.google_id''))
               else
                 ([DbCommit],
                  Inr (d\<lparr>users := update_user (users d) (u_id usr)
                         (\<lambda>r. r\<lparr>u_access_token := u_access_token usr',
                                 u_refresh_token := u_refresh_token usr',
                                 u_google_id := u_google_id usr',
                                 u_name := u_name usr'\<rparr>)\<rparr>,
                       RedirectResponse (success_url usr'))))
      | None \<Rightarrow>
          (case map_of user_info ''id'' of
             None \<Rightarrow> ([], Inl (KeyError ''id''))
           | Some gid \<Rightarrow>
               (let usr =
                  \<lparr>u_id = next_id (map u_id (users d)), u_email = em,
                   u_name = Some (dict_get user_info ''name'' []), u_google_id = Some gid,
                   u_access_token = Some (token cr), u_refresh_token = cred_refresh_token cr,
                   u_is_active = True\<rparr>
                in if list_ex (\<lambda>r. u_email r = em) (users d) then
                     ([DbCommit], Inl (IntegrityError ''users.email''))
                   else if list_ex (\<lambda>r. u_google_id r = Some gid) (users d) then
                     ([DbCommit], Inl (IntegrityError ''users.google_id''))
                   else
                     ([DbCommit],
                      Inr (d\<lparr>users := users d @ [usr]\<rparr>, RedirectResponse (success_url usr))))))"

definition callback_try ::
  "oauth_provider \<Rightarrow> string option \<Rightarrow> db \<Rightarrow> event list \<times> (py_exception + db \<times> response)" where
  "callback_try prov code_param d =
     (case code_param of
        None \<Rightarrow> ([], Inl (RaisedHTTPException 400 ''Authorization code not provided''))
      | Some code \<Rightarrow>
          if code = [] then
            ([], Inl (RaisedHTTPException 400 ''Authorization code not provided''))
          else
            (case exchange_code_for_tokens prov code of
               Inl e \<Rightarrow> ([], Inl e)
             | Inr cr \<Rightarrow>
                 (case get_user_info prov (token cr) of
                    (ev, None) \<Rightarrow> (ev, Inl (RaisedHTTPException 400 ''Failed to get user info''))
                  | (ev, Some user_info) \<Rightarrow>
                      if user_info = [] then
                        (ev, Inl (RaisedHTTPException 400 ''Failed to get user info''))
                      else
                        (case map_of user_info ''email'' of
                           None \<Rightarrow> (ev, Inl (KeyError ''email''))
                         | Some em \<Rightarrow> prepend ev (upsert_user d cr user_info em)))))"

definition callback :: "oauth_provider \<Rightarrow> string option \<Rightarrow> db \<Rightarrow> result" where
  "callback prov code_param d =
     (case callback_try prov code_param d of
        (ev, Inr (d', resp)) \<Rightarrow> \<lparr>db_after = d', response = resp, log = ev\<rparr>
      | (ev, Inl e) \<Rightarrow>
          \<lparr>db_after = d, response = HTTPException 400 ''Authentication failed: '' (Some e),
           log = ev @ [DbRollback]\<rparr>)"

section \<open>Example data\<close>

text \<open>
  A store with one user and one mirrored message, the same store after that message was
  deleted, and three providers: one whose calls all return, one that answers every call with
  status 500, and one that cannot be reached (the calls raise transport faults).
\<close>

definition ann :: user where
  "ann = \<lparr>u_id = 1, u_email = ''ann@example.org'', u_name = Some ''Ann'',
          u_google_id = Some ''g1'', u_access_token = Some ''at1'',
          u_refresh_token = Some ''rt1'', u_is_active = True\<rparr>"

definition mail1 :: email where
  "mail1 = \<lparr>e_id = 1, e_message_id = ''m1'', e_user_id = 1, e_thread_id = ''t1'',
            e_subject = ''hello'', e_sender = ''bob@example.org'',
            e_recipient = ''ann@example.org'', e_body_text = ''A'', e_body_html = [],
            e_is_read = False, e_is_starred = False, e_is_deleted = False,
            e_labels = [''INBOX'', ''UNREAD''], e_received_date = []\<rparr>"

definition db1 :: db where
  "db1 = \<lparr>users = [ann], emails = [mail1]\<rparr>"

definition mail1_deleted :: email where
  "mail1_deleted = mail1\<lparr>e_is_deleted := True\<rparr>"

definition db1_deleted :: db where
  "db1_deleted = \<lparr>users = [ann], emails = [mail1_deleted]\<rparr>"

definition remote_up :: remote where
  "remote_up =
     \<lparr>build_service_result = Returned (),
      list_messages_result = Returned (Some [''m1'', ''m2'']),
      get_message_result = (\<lambda>i. Returned (two_plain_message\<lparr>msg_id := Some i\<rparr>)),
      modify_message_result = (\<lambda>i a r. Returned ())\<rparr>"

definition remote_timeout :: remote where
  "remote_timeout =
     \<lparr>build_service_result = Returned (),
      list_messages_result = Raised (TransportTimeout ''timed out''),
      get_message_result = (\<lambda>i. Raised (TransportTimeout ''timed out'')),
      modify_message_result = (\<lambda>i a r. Raised (TransportTimeout ''timed out''))\<rparr>"

definition remote_500 :: remote where
  "remote_500 =
     \<lparr>build_service_result = Returned (),
      list_messages_result = Raised (HttpError \<lparr>resp_status = 500, content = ''boom''\<rparr>),
      get_message_result = (\<lambda>i. Raised (HttpError \<lparr>resp_status = 500, content = ''boom''\<rparr>)),
      modify_message_result =
        (\<lambda>i a r. Raised (HttpError \<lparr>resp_status = 500, content = ''boom''\<rparr>))\<rparr>"

definition remote_down :: remote where
  "remote_down =
     \<lparr>build_service_result = Returned (),
      list_messages_result = Raised (TransportTimeout ''timed out''),
      get_message_result = (\<lambda>i. Raised (TransportTimeout ''timed out'')),
      modify_message_result = (\<lambda>i a r. Raised (TransportConnectionError ''connection refused''))\<rparr>"

text \<open>A provider that lists three messages, the third with a body that is not base64.\<close>

text \<open>
  A provider whose fetches time out, one that lists the same new message twice, and one
  for which the service cannot be built.
\<close>

definition remote_fetch_down :: remote where
  "remote_fetch_down =
     \<lparr>build_service_result = Returned (),
      list_messages_result = Returned (Some [''m1'', ''m2'']),
      get_message_result = (\<lambda>i. Raised (TransportTimeout ''timed out'')),
      modify_message_result = (\<lambda>i a r. Returned ())\<rparr>"

definition remote_twice :: remote where
  "remote_twice =
     \<lparr>build_service_result = Returned (),
      list_messages_result = Returned (Some [''m2'', ''m2'']),
      get_message_result = (\<lambda>i. Returned (two_plain_message\<lparr>msg_id := Some i\<rparr>)),
      modify_message_result = (\<lambda>i a r. Returned ())\<rparr>"

definition remote_no_build :: remote where
  "remote_no_build =
     \<lparr>build_service_result = Raised (RefreshError ''invalid_grant''),
      list_messages_result = Returned (Some [''m1'', ''m2'']),
      get_message_result = (\<lambda>i. Returned (two_plain_message\<lparr>msg_id := Some i\<rparr>)),
      modify_message_result = (\<lambda>i a r. Returned ())\<rparr>"

definition bad_message :: gmail_message where
  "bad_message =
     \<lparr>msg_id = Some ''m3'', threadId = Some ''t3'', labelIds = Some [''INBOX''],
      payload = Some (Part [] (Some ''text/plain'') (Some ''Q'') []), other_keys = True\<rparr>"

definition remote_bad :: remote where
  "remote_bad =
     \<lparr>build_service_result = Returned (),
      list_messages_result = Returned (Some [''m1'', ''m2'', ''m3'']),
      get_message_result =
        (\<lambda>i. if i = ''m3'' then Returned bad_message
             else Returned (two_plain_message\<lparr>msg_id := Some i\<rparr>)),
      modify_message_result = (\<lambda>i a r. Returned ())\<rparr>"

text \<open>
  An OAuth provider that redeems one code for a token pair and resolves its access token to
  an identity; the user of the store after a repeated login, the same user with neither name
  nor provider id, and the user that a first login creates.
\<close>

definition provider1 :: oauth_provider where
  "provider1 =
     \<lparr>exchange_result =
        (\<lambda>c. if c = ''code1'' then Returned \<lparr>token = ''at2'', cred_refresh_token = Some ''rt2''\<rparr>
             else Raised (ValueError ''invalid_grant'')),
      userinfo_result =
        (\<lambda>t. if t = ''at2'' then
               Returned [(''id'', ''g9''), (''email'', ''ann@example.org''), (''name'', ''Ann B'')]
             else Raised (TransportConnectionError ''connection refused''))\<rparr>"

text \<open>Another user, who holds the provider id that \<open>provider1\<close> reports.\<close>

definition bob :: user where
  "bob = \<lparr>u_id = 2, u_email = ''bob@example.org'', u_name = Some ''Bob'',
          u_google_id = Some ''g9'', u_access_token = Some ''at7'',
          u_refresh_token = Some ''rt7'', u_is_active = True\<rparr>"

definition ann_again :: user where
  "ann_again = ann\<lparr>u_access_token := Some ''at2'', u_refresh_token := Some ''rt2''\<rparr>"

definition ann_blank :: user where
  "ann_blank = ann\<lparr>u_name := Some [], u_google_id := None\<rparr>"

definition ann_new :: user where
  "ann_new = \<lparr>u_id = 1, u_email = ''ann@example.org'', u_name = Some ''Ann B'',
              u_google_id = Some ''g9'', u_access_token = Some ''at2'',
              u_refresh_token = Some ''rt2'', u_is_active = True\<rparr>"

text \<open>The answer of the per-message handlers when no row matches.\<close>

definition not_found :: "db \<Rightarrow> result" where
  "not_found d =
     \<lparr>db_after = d, response = HTTPException 404 ''Email not found'' None, log = []\<rparr>"

section \<open>Properties of the error conversion\<close>

lemmas exception_ctor_defs =
  BaseAPIException_def mk_InvalidTokenError_def mk_AuthorizationError_def
  mk_GmailAPIError_def mk_GmailQuotaExceededError_def mk_ExternalServiceError_def
  mk_ExternalServiceTimeoutError_def

text \<open>
  Claim C1, as stated, fails: for provider status 404 the table of the specification asks for
  a resource-kind-specific not-found error, while \<^verbatim>\<open>handle_google_api_error\<close> raises
  the generic \<^verbatim>\<open>GmailAPIError\<close> (status code 500, no details); and for another
  status such as 500 the generic error carries the status only, not the body.
\<close>

theorem C1_not_found_counterexample:
  "outcome_of (handle_google_api_error \<lparr>resp_status = 404, content = ''gone''\<rparr> ''get_message'')
     \<noteq> spec_error_table (HttpStatus 404)
   \<and> handle_google_api_error \<lparr>resp_status = 404, content = ''gone''\<rparr> ''get_message''
     = \<lparr>exc_class = GmailAPIError,
        message = ''Google API resource not found during get_message'',
        status_code = 500, error_code = ''GMAIL_API_ERROR'', details = []\<rparr>
   \<and> details (handle_google_api_error \<lparr>resp_status = 500, content = ''boom''\<rparr> ''get_message'')
     = [(''status_code'', DInt 500)]"
  by (simp add: handle_google_api_error_def exception_ctor_defs outcome_of_def
      spec_error_table_def)

text \<open>
  Claim C1, amended: the conversion utilities map 401 to \<^verbatim>\<open>InvalidTokenError\<close>, 403 to
  \<^verbatim>\<open>AuthorizationError\<close>, 429 to \<^verbatim>\<open>GmailQuotaExceededError\<close>, 404 to the generic
  \<^verbatim>\<open>GmailAPIError\<close> (status code 500, no details, never one of the not-found classes),
  every other status to \<^verbatim>\<open>GmailAPIError\<close> whose details hold the raw status only (the
  result does not depend on the body), a timeout to \<^verbatim>\<open>ExternalServiceTimeoutError\<close>
  and every other request fault, a connection failure among them, to
  \<^verbatim>\<open>ExternalServiceError\<close>. So the kind of the outcome is the one of the
  specification's table for every signal except status 404.
\<close>

theorem C1_error_table_amended:
  "(resp_status exc = 401 \<longrightarrow>
      exc_class (handle_google_api_error exc operation) = InvalidTokenError
      \<and> status_code (handle_google_api_error exc operation) = 401)
   \<and> (resp_status exc = 403 \<longrightarrow>
      exc_class (handle_google_api_error exc operation) = AuthorizationError
      \<and> status_code (handle_google_api_error exc operation) = 403)
   \<and> (resp_status exc = 429 \<longrightarrow>
      exc_class (handle_google_api_error exc operation) = GmailQuotaExceededError
      \<and> status_code (handle_google_api_error exc operation) = 429)
   \<and> (resp_status exc = 404 \<longrightarrow>
      exc_class (handle_google_api_error exc operation) = GmailAPIError
      \<and> status_code (handle_google_api_error exc operation) = 500
      \<and> details (handle_google_api_error exc operation) = []
      \<and> outcome_of (handle_google_api_error exc operation) \<noteq> OutNotFound)
   \<and> (resp_status exc \<notin> {401, 403, 404, 429} \<longrightarrow>
      exc_class (handle_google_api_error exc operation) = GmailAPIError
      \<and> status_code (handle_google_api_error exc operation) = 500
      \<and> details (handle_google_api_error exc operation)
          = [(''status_code'', DInt (resp_status exc))])
   \<and> handle_google_api_error (exc\<lparr>content := body\<rparr>) operation
        = handle_google_api_error exc operation
   \<and> (is_Timeout rexc \<longrightarrow>
      exc_class (handle_request_error rexc service_name) = ExternalServiceTimeoutError
      \<and> status_code (handle_request_error rexc service_name) = 504)
   \<and> (\<not> is_Timeout rexc \<longrightarrow>
      exc_class (handle_request_error rexc service_name) = ExternalServiceError
      \<and> status_code (handle_request_error rexc service_name) = 503)
   \<and> (\<not> is_Timeout rexc \<and> is_ConnectionError rexc \<longrightarrow>
      message (handle_request_error rexc service_name) = ''Connection error'')
   \<and> (resp_status exc \<noteq> 404 \<longrightarrow>
      outcome_of (handle_google_api_error exc operation)
        = spec_error_table (HttpStatus (resp_status exc)))
   \<and> (is_Timeout rexc \<longrightarrow>
      outcome_of (handle_request_error rexc service_name) = spec_error_table NetworkTimeout)
   \<and> (\<not> is_Timeout rexc \<longrightarrow>
      outcome_of (handle_request_error rexc service_name)
        = spec_error_table NetworkConnectionFailure)"
  by (simp add: handle_google_api_error_def handle_request_error_def exception_ctor_defs
      outcome_of_def spec_error_table_def)

theorem C1_error_table_amended_witness:
  "exc_class (handle_google_api_error \<lparr>resp_status = 401, content = []\<rparr> ''op'') = InvalidTokenError
   \<and> exc_class (handle_google_api_error \<lparr>resp_status = 403, content = []\<rparr> ''op'') = AuthorizationError
   \<and> exc_class (handle_google_api_error \<lparr>resp_status = 429, content = []\<rparr> ''op'')
       = GmailQuotaExceededError
   \<and> exc_class (handle_google_api_error \<lparr>resp_status = 404, content = []\<rparr> ''op'') = GmailAPIError
   \<and> details (handle_google_api_error \<lparr>resp_status = 500, content = []\<rparr> ''op'')
       = [(''status_code'', DInt 500)]
   \<and> exc_class (handle_request_error
        \<lparr>is_Timeout = True, is_ConnectionError = False, exc_text = []\<rparr> ''gmail'')
       = ExternalServiceTimeoutError
   \<and> message (handle_request_error
        \<lparr>is_Timeout = False, is_ConnectionError = True, exc_text = []\<rparr> ''gmail'')
       = ''Connection error''"
  using
    C1_error_table_amended [of "\<lparr>resp_status = 401, content = []\<rparr>" "''op''" "[]"
      "\<lparr>is_Timeout = True, is_ConnectionError = False, exc_text = []\<rparr>" "''gmail''"]
    C1_error_table_amended [of "\<lparr>resp_status = 403, content = []\<rparr>" "''op''" "[]"
      "\<lparr>is_Timeout = False, is_ConnectionError = True, exc_text = []\<rparr>" "''gmail''"]
    C1_error_table_amended [of "\<lparr>resp_status = 429, content = []\<rparr>" "''op''" "[]"
      "\<lparr>is_Timeout = False, is_ConnectionError = True, exc_text = []\<rparr>" "''gmail''"]
    C1_error_table_amended [of "\<lparr>resp_status = 404, content = []\<rparr>" "''op''" "[]"
      "\<lparr>is_Timeout = False, is_ConnectionError = True, exc_text = []\<rparr>" "''gmail''"]
    C1_error_table_amended [of "\<lparr>resp_status = 500, content = []\<rparr>" "''op''" "[]"
      "\<lparr>is_Timeout = False, is_ConnectionError = True, exc_text = []\<rparr>" "''gmail''"]
  by simp


section \<open>Properties of message parsing\<close>

lemma extract_body_plain:
  "extract_body p st = Inr st' \<Longrightarrow> final_body (leaf_data ''text/plain'' p) (fst st) (fst st')"
  "extract_body_parts ps st = Inr st' \<Longrightarrow>
     final_body (leaf_data_parts ''text/plain'' ps) (fst st) (fst st')"
proof (induction p st and ps st arbitrary: st' and st' rule: extract_body_extract_body_parts.induct)
  case (1 hs mt bd ps body_text body_html)
  then show ?case
    by (auto simp: final_body_def Let_def split: if_splits option.splits sum.splits)
next
  case (2 st)
  then show ?case by (simp add: final_body_def)
next
  case (3 p ps st)
  from "3.prems" obtain st1 where
    a: "extract_body p st = Inr st1" and b: "extract_body_parts ps st1 = Inr st'"
    by (auto split: sum.splits)
  from "3.IH"(1) [OF a] have f1: "final_body (leaf_data ''text/plain'' p) (fst st) (fst st1)" .
  from "3.IH"(2) [OF a b]
  have f2: "final_body (leaf_data_parts ''text/plain'' ps) (fst st1) (fst st')" .
  from f1 f2 show ?case
    by (auto simp: final_body_def split: if_splits)
qed

lemma extract_body_html:
  "extract_body p st = Inr st' \<Longrightarrow> final_body (leaf_data ''text/html'' p) (snd st) (snd st')"
  "extract_body_parts ps st = Inr st' \<Longrightarrow>
     final_body (leaf_data_parts ''text/html'' ps) (snd st) (snd st')"
proof (induction p st and ps st arbitrary: st' and st' rule: extract_body_extract_body_parts.induct)
  case (1 hs mt bd ps body_text body_html)
  then show ?case
    by (auto simp: final_body_def Let_def split: if_splits option.splits sum.splits)
next
  case (2 st)
  then show ?case by (simp add: final_body_def)
next
  case (3 p ps st)
  from "3.prems" obtain st1 where
    a: "extract_body p st = Inr st1" and b: "extract_body_parts ps st1 = Inr st'"
    by (auto split: sum.splits)
  from "3.IH"(1) [OF a] have f1: "final_body (leaf_data ''text/html'' p) (snd st) (snd st1)" .
  from "3.IH"(2) [OF a b]
  have f2: "final_body (leaf_data_parts ''text/html'' ps) (snd st1) (snd st')" .
  from f1 f2 show ?case
    by (auto simp: final_body_def split: if_splits)
qed

text \<open>The extraction returns whenever every leaf that carries data decodes.\<close>

lemma extract_body_total:
  "list_all (\<lambda>d. \<not> isl (b64_text d)) (leaf_data ''text/plain'' p @ leaf_data ''text/html'' p)
     \<Longrightarrow> \<exists>st'. extract_body p st = Inr st'"
  "list_all (\<lambda>d. \<not> isl (b64_text d))
      (leaf_data_parts ''text/plain'' ps @ leaf_data_parts ''text/html'' ps)
     \<Longrightarrow> \<exists>st'. extract_body_parts ps st = Inr st'"
proof (induction p st and ps st rule: extract_body_extract_body_parts.induct)
  case (1 hs mt bd ps body_text body_html)
  then show ?case
    by (auto simp: Let_def split: if_splits option.splits sum.splits)
next
  case (2 st)
  then show ?case by simp
next
  case (3 p ps st)
  then show ?case
    by (fastforce split: sum.splits)
qed

lemma parse_message_total:
  assumes "list_all (\<lambda>d. \<not> isl (b64_text d))
             (leaf_data ''text/plain'' (message_payload m) @
              leaf_data ''text/html'' (message_payload m))"
    and "msg_id m = Some i"
  shows "\<exists>r. parse_message m = Inr r"
proof -
  from extract_body_total(1) [OF assms(1)]
  obtain st' where "extract_body (message_payload m) ([], []) = Inr st'" by blast
  with assms(2) show ?thesis
    by (cases st') (simp add: parse_message_def Let_def)
qed

text \<open>
  Claim C2, as stated, fails: on a payload with two \<^verbatim>\<open>text/plain\<close> leaves whose bodies
  decode to \<^verbatim>\<open>A\<close> and \<^verbatim>\<open>B\<close>, parsing returns \<^verbatim>\<open>B\<close>, the body of the second
  leaf, where first-match-wins asks for \<^verbatim>\<open>A\<close>.
\<close>

theorem C2_first_match_counterexample:
  "map_sum id p_body_text (parse_message two_plain_message) = Inr ''B''
   \<and> spec_first_match_body ''text/plain'' (message_payload two_plain_message) = Inr ''A''"
  by code_simp

text \<open>
  Claim C2, amended: whenever parsing returns, the text body is the decoded data of the last
  \<^verbatim>\<open>text/plain\<close> leaf with data met in depth-first order (each later leaf overwrites the
  body found before), and the empty string when there is none; likewise the HTML body for
  \<^verbatim>\<open>text/html\<close>.
\<close>

theorem C2_last_leaf_wins:
  assumes "parse_message m = Inr r"
  shows "(leaf_data ''text/plain'' (message_payload m) = [] \<longrightarrow> p_body_text r = [])
       \<and> (leaf_data ''text/plain'' (message_payload m) \<noteq> [] \<longrightarrow>
            b64_text (last (leaf_data ''text/plain'' (message_payload m))) = Inr (p_body_text r))
       \<and> (leaf_data ''text/html'' (message_payload m) = [] \<longrightarrow> p_body_html r = [])
       \<and> (leaf_data ''text/html'' (message_payload m) \<noteq> [] \<longrightarrow>
            b64_text (last (leaf_data ''text/html'' (message_payload m))) = Inr (p_body_html r))"
proof -
  from assms obtain t h where
    eb: "extract_body (message_payload m) ([], []) = Inr (t, h)"
    and r: "p_body_text r = t" "p_body_html r = h"
    by (auto simp: parse_message_def Let_def split: sum.splits option.splits)
  from extract_body_plain(1) [OF eb] extract_body_html(1) [OF eb] r
  show ?thesis
    by (simp add: final_body_def split: if_splits)
qed

theorem C2_last_leaf_wins_witness:
  "parse_message two_plain_message =
     Inr \<lparr>p_message_id = ''m1'', p_thread_id = ''t1'', p_subject = ''hello'', p_sender = [],
          p_recipient = [], p_body_text = ''B'', p_body_html = [],
          p_labels = [''INBOX'', ''UNREAD''], p_date = [], p_is_read = False,
          p_is_starred = False\<rparr>
   \<and> leaf_data ''text/plain'' (message_payload two_plain_message) = [''QQ=='', ''Qg=='']
   \<and> b64_text (last (leaf_data ''text/plain'' (message_payload two_plain_message))) = Inr ''B''"
proof -
  let ?r = "\<lparr>p_message_id = ''m1'', p_thread_id = ''t1'', p_subject = ''hello'', p_sender = [],
          p_recipient = [], p_body_text = ''B'', p_body_html = [],
          p_labels = [''INBOX'', ''UNREAD''], p_date = [], p_is_read = False,
          p_is_starred = False\<rparr>"
  have h: "parse_message two_plain_message = Inr ?r" by code_simp
  have l: "leaf_data ''text/plain'' (message_payload two_plain_message) = [''QQ=='', ''Qg=='']"
    by code_simp
  from C2_last_leaf_wins [OF h] h l show ?thesis by simp
qed

section \<open>Properties of the gateway\<close>

lemmas gateway_defs = build_service_def list_messages_def get_message_def modify_message_def

lemmas other_gateway_defs =
  send_email_def create_draft_def update_draft_def delete_draft_def send_draft_def
  create_calendar_event_def list_calendar_events_def get_calendar_event_def
  update_calendar_event_def delete_calendar_event_def

text \<open>
  Claim C8, as stated, fails: when the provider cannot be reached,
  \<^verbatim>\<open>list_messages\<close> and \<^verbatim>\<open>get_message\<close> do not return a value; the transport fault
  leaves them as an exception.
\<close>

theorem C8_transport_fault_counterexample:
  "snd (list_messages remote_down) = Inl (TransportTimeout ''timed out'')
   \<and> snd (get_message remote_down ''m1'') = Inl (TransportTimeout ''timed out'')"
  by (simp add: gateway_defs remote_down_def)

text \<open>
  Claim C8, amended: each of the thirteen gateway operations on messages, drafts and calendar
  events catches the provider-reported error, the \<^verbatim>\<open>HttpError\<close>, and returns its empty
  value in its place (\<^verbatim>\<open>[]\<close> for the two listings, \<^verbatim>\<open>False\<close> for the two
  deletions, \<^verbatim>\<open>None\<close> for the others); every other exception of the provider call, a
  timeout or a connection failure among them, is not caught and propagates to the caller.
\<close>

theorem C8_gateway_catches_http_error:
  assumes "list_messages_result rem = Raised x"
    and "get_message_result rem mid = Raised x"
    and "modify_message_result rem mid add_labels remove_labels = Raised x"
  shows "((\<exists>h. x = HttpError h) \<longrightarrow>
            snd (list_messages rem) = Inr []
          \<and> snd (get_message rem mid) = Inr None
          \<and> snd (modify_message rem mid add_labels remove_labels) = Inr None
          \<and> snd (send_email (Raised x)) = Inr None
          \<and> snd (create_draft (Raised x)) = Inr None
          \<and> snd (update_draft (Raised x)) = Inr None
          \<and> snd (delete_draft (Raised x)) = Inr False
          \<and> snd (send_draft (Raised x)) = Inr None
          \<and> snd (create_calendar_event (Raised x)) = Inr None
          \<and> snd (list_calendar_events (Raised x)) = Inr []
          \<and> snd (get_calendar_event (Raised x)) = Inr None
          \<and> snd (update_calendar_event (Raised x)) = Inr None
          \<and> snd (delete_calendar_event (Raised x)) = Inr False)
       \<and> ((\<forall>h. x \<noteq> HttpError h) \<longrightarrow>
            snd (list_messages rem) = Inl x
          \<and> snd (get_message rem mid) = Inl x
          \<and> snd (modify_message rem mid add_labels remove_labels) = Inl x
          \<and> snd (send_email (Raised x)) = Inl x
          \<and> snd (create_draft (Raised x)) = Inl x
          \<and> snd (update_draft (Raised x)) = Inl x
          \<and> snd (delete_draft (Raised x)) = Inl x
          \<and> snd (send_draft (Raised x)) = Inl x
          \<and> snd (create_calendar_event (Raised x)) = Inl x
          \<and> snd (list_calendar_events (Raised x)) = Inl x
          \<and> snd (get_calendar_event (Raised x)) = Inl x
          \<and> snd (update_calendar_event (Raised x)) = Inl x
          \<and> snd (delete_calendar_event (Raised x)) = Inl x)"
  using assms
  by (cases x) (simp_all add: gateway_defs other_gateway_defs except_HttpError_def)

theorem C8_gateway_catches_http_error_witness:
  "snd (list_messages remote_500) = Inr []
   \<and> snd (get_message remote_500 ''m1'') = Inr None
   \<and> snd (modify_message remote_500 ''m1'' [''STARRED''] []) = Inr None
   \<and> snd (list_messages remote_timeout) = Inl (TransportTimeout ''timed out'')
   \<and> snd (get_message remote_timeout ''m1'') = Inl (TransportTimeout ''timed out'')
   \<and> snd (modify_message remote_timeout ''m1'' [''STARRED''] [])
       = Inl (TransportTimeout ''timed out'')"
proof -
  have a: "list_messages_result remote_500
             = Raised (HttpError \<lparr>resp_status = 500, content = ''boom''\<rparr>)"
    "get_message_result remote_500 ''m1''
             = Raised (HttpError \<lparr>resp_status = 500, content = ''boom''\<rparr>)"
    "modify_message_result remote_500 ''m1'' [''STARRED''] []
             = Raised (HttpError \<lparr>resp_status = 500, content = ''boom''\<rparr>)"
    by (simp_all add: remote_500_def)
  have b: "list_messages_result remote_timeout = Raised (TransportTimeout ''timed out'')"
    "get_message_result remote_timeout ''m1'' = Raised (TransportTimeout ''timed out'')"
    "modify_message_result remote_timeout ''m1'' [''STARRED''] []
       = Raised (TransportTimeout ''timed out'')"
    by (simp_all add: remote_timeout_def)
  have h: "\<exists>h. HttpError \<lparr>resp_status = 500, content = ''boom''\<rparr> = HttpError h"
    by simp
  have t: "\<forall>h. TransportTimeout ''timed out'' \<noteq> HttpError h"
    by simp
  from C8_gateway_catches_http_error [OF a] h
  have ok: "snd (list_messages remote_500) = Inr []
     \<and> snd (get_message remote_500 ''m1'') = Inr None
     \<and> snd (modify_message remote_500 ''m1'' [''STARRED''] []) = Inr None"
    by blast
  from C8_gateway_catches_http_error [OF b] t
  have ko: "snd (list_messages remote_timeout) = Inl (TransportTimeout ''timed out'')
     \<and> snd (get_message remote_timeout ''m1'') = Inl (TransportTimeout ''timed out'')
     \<and> snd (modify_message remote_timeout ''m1'' [''STARRED''] [])
         = Inl (TransportTimeout ''timed out'')"
    by blast
  from ok ko show ?thesis by blast
qed

section \<open>Lookups and updates\<close>

lemma find_map_preserved:
  assumes "\<And>r. P (f r) = P r"
  shows "List.find P (map f rows) = map_option f (List.find P rows)"
  using assms by (induction rows) simp_all

lemma find_email_update:
  assumes "\<And>r. e_id (f r) = e_id r \<and> e_user_id (f r) = e_user_id r
              \<and> e_is_deleted (f r) = e_is_deleted r"
  shows "find_email (d\<lparr>emails := update_email (emails d) pk f\<rparr>) email_id usr
         = map_option (\<lambda>r. if e_id r = pk then f r else r) (find_email d email_id usr)"
  unfolding find_email_def update_email_def
  using assms by (simp add: find_map_preserved)

lemma find_by_key:
  assumes "distinct (map e_id rows)" and "r \<in> set rows"
  shows "List.find (\<lambda>x. e_id x = e_id r \<and> Q x) rows = (if Q r then Some r else None)"
  using assms
proof (induction rows)
  case Nil
  then show ?case by simp
next
  case (Cons a rows)
  show ?case
  proof (cases "a = r")
    case True
    with Cons.prems have "e_id r \<notin> e_id ` set rows" by simp
    then have "\<forall>x \<in> set rows. e_id x \<noteq> e_id r" by (metis imageI)
    then have "List.find (\<lambda>x. e_id x = e_id r \<and> Q x) rows = None"
      by (auto simp: find_None_iff)
    with True show ?thesis by simp
  next
    case False
    with Cons.prems have "r \<in> set rows" "e_id a \<noteq> e_id r" "distinct (map e_id rows)"
      by force+
    with Cons.IH show ?thesis by simp
  qed
qed

lemma find_absent_key:
  assumes "k \<notin> set (map e_id rows)"
  shows "List.find (\<lambda>x. e_id x = k \<and> Q x) rows = None"
  using assms by (auto simp: find_None_iff)

lemma update_email_same:
  assumes "distinct (map e_id rows)" and "r \<in> set rows" and "f r = r"
  shows "update_email rows (e_id r) f = rows"
proof -
  have "\<And>x. x \<in> set rows \<Longrightarrow> (if e_id x = e_id r then f x else x) = x"
  proof -
    fix x assume x: "x \<in> set rows"
    show "(if e_id x = e_id r then f x else x) = x"
    proof (cases "e_id x = e_id r")
      case True
      with assms(1,2) x have "x = r" by (meson distinct_map inj_onD)
      with assms(3) show ?thesis by simp
    next
      case False
      then show ?thesis by simp
    qed
  qed
  then show ?thesis unfolding update_email_def by (simp add: map_idI)
qed

section \<open>Properties of the star handlers\<close>

text \<open>
  Claim C9: on a message that is already starred, \<^verbatim>\<open>star/add\<close> answers with the
  existing state, leaves the store as it is, commits nothing and calls no gateway operation
  (the list of effects is empty); likewise \<^verbatim>\<open>star/remove\<close> on a message that is not
  starred. Hence a second invocation of either endpoint, whatever the first one did, changes
  nothing.
\<close>

theorem C9_star_set_idempotent:
  assumes "List.find (\<lambda>u. u_email u = em) (users d) = Some usr"
    and "find_email d email_id usr = Some r"
  shows "(e_is_starred r \<longrightarrow>
            star_email rem email_id em d =
              \<lparr>db_after = d,
               response = Json [(''message'', JStr ''Email is already starred''),
                                (''is_starred'', JBool True)],
               log = []\<rparr>)
       \<and> (\<not> e_is_starred r \<longrightarrow>
            unstar_email rem email_id em d =
              \<lparr>db_after = d,
               response = Json [(''message'', JStr ''Email is not starred''),
                                (''is_starred'', JBool False)],
               log = []\<rparr>)
       \<and> star_email rem' email_id em (db_after (star_email rem email_id em d)) =
              \<lparr>db_after = db_after (star_email rem email_id em d),
               response = Json [(''message'', JStr ''Email is already starred''),
                                (''is_starred'', JBool True)],
               log = []\<rparr>
       \<and> unstar_email rem' email_id em (db_after (unstar_email rem email_id em d)) =
              \<lparr>db_after = db_after (unstar_email rem email_id em d),
               response = Json [(''message'', JStr ''Email is not starred''),
                                (''is_starred'', JBool False)],
               log = []\<rparr>"
proof -
  have id: "e_id r = email_id"
    using assms(2) by (auto simp: find_email_def dest: find_Some_iff [THEN iffD1])
  have a: "e_is_starred r \<Longrightarrow> star_email rem email_id em d =
              \<lparr>db_after = d,
               response = Json [(''message'', JStr ''Email is already starred''),
                                (''is_starred'', JBool True)],
               log = []\<rparr>" for rem
    using assms by (simp add: star_email_def)
  have b: "\<not> e_is_starred r \<Longrightarrow> unstar_email rem email_id em d =
              \<lparr>db_after = d,
               response = Json [(''message'', JStr ''Email is not starred''),
                                (''is_starred'', JBool False)],
               log = []\<rparr>" for rem
    using assms by (simp add: unstar_email_def)
  have c: "star_email rem' email_id em (db_after (star_email rem email_id em d)) =
              \<lparr>db_after = db_after (star_email rem email_id em d),
               response = Json [(''message'', JStr ''Email is already starred''),
                                (''is_starred'', JBool True)],
               log = []\<rparr>"
  proof (cases "e_is_starred r")
    case True
    with a [of rem] a [of rem'] show ?thesis by simp
  next
    case False
    let ?d' = "d\<lparr>emails := update_email (emails d) (e_id r) (\<lambda>r. r\<lparr>e_is_starred := True\<rparr>)\<rparr>"
    have d': "db_after (star_email rem email_id em d) = ?d'"
      using assms False by (simp add: star_email_def)
    have "find_email ?d' email_id usr = Some (r\<lparr>e_is_starred := True\<rparr>)"
      using assms(2) by (simp add: find_email_update)
    moreover have "List.find (\<lambda>u. u_email u = em) (users ?d') = Some usr"
      using assms(1) by simp
    ultimately show ?thesis
      unfolding d' by (simp add: star_email_def)
  qed
  have e: "unstar_email rem' email_id em (db_after (unstar_email rem email_id em d)) =
              \<lparr>db_after = db_after (unstar_email rem email_id em d),
               response = Json [(''message'', JStr ''Email is not starred''),
                                (''is_starred'', JBool False)],
               log = []\<rparr>"
  proof (cases "e_is_starred r")
    case False
    with b [of rem] b [of rem'] show ?thesis by simp
  next
    case True
    let ?d' = "d\<lparr>emails := update_email (emails d) (e_id r) (\<lambda>r. r\<lparr>e_is_starred := False\<rparr>)\<rparr>"
    have d': "db_after (unstar_email rem email_id em d) = ?d'"
      using assms True by (simp add: unstar_email_def)
    have "find_email ?d' email_id usr = Some (r\<lparr>e_is_starred := False\<rparr>)"
      using assms(2) by (simp add: find_email_update)
    moreover have "List.find (\<lambda>u. u_email u = em) (users ?d') = Some usr"
      using assms(1) by simp
    ultimately show ?thesis
      unfolding d' by (simp add: unstar_email_def)
  qed
  from a b c e show ?thesis by blast
qed


theorem C9_star_set_idempotent_witness:
  "unstar_email remote_up 1 ''ann@example.org'' db1 =
     \<lparr>db_after = db1,
      response = Json [(''message'', JStr ''Email is not starred''), (''is_starred'', JBool False)],
      log = []\<rparr>
   \<and> star_email remote_down 1 ''ann@example.org''
        (db_after (star_email remote_up 1 ''ann@example.org'' db1)) =
     \<lparr>db_after = db_after (star_email remote_up 1 ''ann@example.org'' db1),
      response = Json [(''message'', JStr ''Email is already starred''),
                       (''is_starred'', JBool True)],
      log = []\<rparr>"
proof -
  have usr: "List.find (\<lambda>u. u_email u = ''ann@example.org'') (users db1) = Some ann"
    by (simp add: db1_def ann_def)
  have row: "find_email db1 1 ann = Some mail1"
    by (simp add: find_email_def db1_def mail1_def ann_def)
  have st: "\<not> e_is_starred mail1"
    by (simp add: mail1_def)
  from C9_star_set_idempotent [OF usr row, of remote_up remote_down] st
  show ?thesis by blast
qed

lemma try_modify_shape:
  "\<exists>rest. try_modify rem mid a r txt = Gateway BuildService # rest
          \<and> DbCommit \<notin> set rest \<and> DbRollback \<notin> set rest"
  by (cases "build_service_result rem"; cases "modify_message_result rem mid a r")
     (auto simp: try_modify_def gateway_defs split: py_exception.splits)

lemma try_modify_prints:
  assumes "build_service_result rem = Raised x
           \<or> build_service_result rem = Returned () \<and> modify_message_result rem mid a r = Raised x"
  shows "\<exists>t. Printed t x \<in> set (try_modify rem mid a r txt)"
  using assms
  by (cases x) (auto simp: try_modify_def gateway_defs)

lemma try_modify_calls:
  assumes "build_service_result rem = Returned ()"
  shows "\<exists>rest. try_modify rem mid a r txt
           = Gateway BuildService # Gateway (ModifyMessage mid a r) # rest"
  using assms
  by (cases "modify_message_result rem mid a r")
     (auto simp: try_modify_def gateway_defs split: py_exception.splits)

text \<open>
  Claim C6: when the gateway call that follows a star toggle fails (the service cannot be
  built, or \<^verbatim>\<open>modify_message\<close> raises), the handler still answers with the new star
  state, the flipped flag is in the store, the commit came first and there is no rollback;
  the failure is printed.
\<close>

theorem C6_star_toggle_survives_remote_failure:
  assumes usr: "List.find (\<lambda>u. u_email u = em) (users d) = Some usr"
    and row: "find_email d email_id usr = Some r"
    and fails: "build_service_result rem = Raised x
           \<or> build_service_result rem = Returned ()
             \<and> modify_message_result rem (e_message_id r)
                 (if e_is_starred r then [] else [''STARRED''])
                 (if e_is_starred r then [''STARRED''] else []) = Raised x"
  shows "response (toggle_star_email rem email_id em d) =
           Json [(''message'', JStr (if e_is_starred r then ''Email unstarred'' else ''Email starred'')),
                 (''is_starred'', JBool (\<not> e_is_starred r))]
       \<and> find_email (db_after (toggle_star_email rem email_id em d)) email_id usr
           = Some (r\<lparr>e_is_starred := \<not> e_is_starred r\<rparr>)
       \<and> db_after (toggle_star_email rem email_id em d) =
           d\<lparr>emails := update_email (emails d) (e_id r)
                (\<lambda>x. x\<lparr>e_is_starred := \<not> e_is_starred r\<rparr>)\<rparr>
       \<and> hd (log (toggle_star_email rem email_id em d)) = DbCommit
       \<and> DbRollback \<notin> set (log (toggle_star_email rem email_id em d))
       \<and> (\<exists>t. Printed t x \<in> set (log (toggle_star_email rem email_id em d)))"
proof -
  let ?res = "toggle_star_email rem email_id em d"
  let ?d' = "d\<lparr>emails := update_email (emails d) (e_id r)
                (\<lambda>x. x\<lparr>e_is_starred := \<not> e_is_starred r\<rparr>)\<rparr>"
  have id: "e_id r = email_id"
    using row by (auto simp: find_email_def dest: find_Some_iff [THEN iffD1])
  have resp: "response ?res =
           Json [(''message'', JStr (if e_is_starred r then ''Email unstarred'' else ''Email starred'')),
                 (''is_starred'', JBool (\<not> e_is_starred r))]"
    using usr row by (simp add: toggle_star_email_def Let_def)
  have dba: "db_after ?res = ?d'"
    using usr row by (simp add: toggle_star_email_def Let_def)
  have found: "find_email ?d' email_id usr = Some (r\<lparr>e_is_starred := \<not> e_is_starred r\<rparr>)"
    using row by (simp add: find_email_update)
  have lg: "log ?res = DbCommit #
      try_modify rem (e_message_id r) (if e_is_starred r then [] else [''STARRED''])
        (if e_is_starred r then [''STARRED''] else []) ''Failed to update star status in Gmail: ''"
    using usr row by (simp add: toggle_star_email_def Let_def)
  from try_modify_shape
  obtain rest where rest: "try_modify rem (e_message_id r)
        (if e_is_starred r then [] else [''STARRED''])
        (if e_is_starred r then [''STARRED''] else []) ''Failed to update star status in Gmail: ''
        = Gateway BuildService # rest" "DbRollback \<notin> set rest"
    by blast
  have hdl: "hd (log ?res) = DbCommit" using lg by simp
  have norb: "DbRollback \<notin> set (log ?res)" using lg rest by simp
  from try_modify_prints [OF fails]
  have pr: "\<exists>t. Printed t x \<in> set (log ?res)" using lg by auto
  from resp dba found hdl norb pr show ?thesis by simp
qed

theorem C6_star_toggle_survives_remote_failure_witness:
  "toggle_star_email remote_down 1 ''ann@example.org'' db1 =
     \<lparr>db_after = \<lparr>users = [ann], emails = [mail1\<lparr>e_is_starred := True\<rparr>]\<rparr>,
      response = Json [(''message'', JStr ''Email starred''), (''is_starred'', JBool True)],
      log = [DbCommit, Gateway BuildService, Gateway (ModifyMessage ''m1'' [''STARRED''] []),
             Printed ''Failed to update star status in Gmail: ''
               (TransportConnectionError ''connection refused'')]\<rparr>
   \<and> find_email (db_after (toggle_star_email remote_down 1 ''ann@example.org'' db1)) 1 ann
       = Some (mail1\<lparr>e_is_starred := True\<rparr>)"
proof -
  have usr: "List.find (\<lambda>u. u_email u = ''ann@example.org'') (users db1) = Some ann"
    by (simp add: db1_def ann_def)
  have row: "find_email db1 1 ann = Some mail1"
    by (simp add: find_email_def db1_def mail1_def ann_def)
  have fails: "build_service_result remote_down = Raised (TransportConnectionError ''connection refused'')
           \<or> build_service_result remote_down = Returned ()
             \<and> modify_message_result remote_down (e_message_id mail1)
                 (if e_is_starred mail1 then [] else [''STARRED''])
                 (if e_is_starred mail1 then [''STARRED''] else [])
               = Raised (TransportConnectionError ''connection refused'')"
    by (simp add: remote_down_def)
  have run: "toggle_star_email remote_down 1 ''ann@example.org'' db1 =
     \<lparr>db_after = \<lparr>users = [ann], emails = [mail1\<lparr>e_is_starred := True\<rparr>]\<rparr>,
      response = Json [(''message'', JStr ''Email starred''), (''is_starred'', JBool True)],
      log = [DbCommit, Gateway BuildService, Gateway (ModifyMessage ''m1'' [''STARRED''] []),
             Printed ''Failed to update star status in Gmail: ''
               (TransportConnectionError ''connection refused'')]\<rparr>"
    by (simp add: toggle_star_email_def find_email_def db1_def mail1_def ann_def remote_down_def
        try_modify_def gateway_defs update_email_def Let_def)
  have st: "e_is_starred mail1 = False"
    by (simp add: mail1_def)
  from C6_star_toggle_survives_remote_failure [OF usr row fails]
  have "find_email (db_after (toggle_star_email remote_down 1 ''ann@example.org'' db1)) 1 ann
       = Some (mail1\<lparr>e_is_starred := \<not> e_is_starred mail1\<rparr>)"
    by (rule conjunct1 [OF conjunct2])
  then have "find_email (db_after (toggle_star_email remote_down 1 ''ann@example.org'' db1)) 1 ann
       = Some (mail1\<lparr>e_is_starred := True\<rparr>)"
    unfolding st by simp
  with run show ?thesis by (rule conjI)
qed

section \<open>Which mutations are mirrored to the provider\<close>

text \<open>
  Claim C7, as stated, fails: fetching an unread message marks it as read, and deleting a
  message sets its flag, but neither handler calls the gateway; the only effect either has is
  the commit.
\<close>

theorem C7_no_mirroring_counterexample:
  "get_email 1 ''ann@example.org'' db1 =
     \<lparr>db_after = \<lparr>users = [ann], emails = [mail1\<lparr>e_is_read := True\<rparr>]\<rparr>,
      response = EmailResponse (mail1\<lparr>e_is_read := True\<rparr>),
      log = [DbCommit]\<rparr>
   \<and> delete_email 1 ''ann@example.org'' db1 =
     \<lparr>db_after = \<lparr>users = [ann], emails = [mail1\<lparr>e_is_deleted := True\<rparr>]\<rparr>,
      response = Json [(''message'', JStr ''Email deleted'')],
      log = [DbCommit]\<rparr>"
  by (simp add: get_email_def delete_email_def find_email_def db1_def mail1_def ann_def
      update_email_def)

text \<open>
  Claim C7, amended: neither fetching a message nor deleting one makes any call to the
  provider. Fetching a message of the user answers with the row marked as read; if it was
  unread the handler sets \<^verbatim>\<open>is_read\<close> on the local row and commits (that is all it does),
  if it was read already it changes nothing; afterwards the row is found as read. Deleting a
  message of the user sets \<^verbatim>\<open>is_deleted\<close> on the local row and commits (that is all it
  does); afterwards the row is found as deleted. A star toggle updates the local row and
  commits first, and then attempts to mirror the change: it builds the service and, once
  built, calls \<^verbatim>\<open>modify_message\<close> with the label \<^verbatim>\<open>STARRED\<close> added or removed.
\<close>

theorem C7_only_star_is_mirrored:
  "list_all (\<lambda>ev. ev = DbCommit) (log (get_email email_id em d))
   \<and> list_all (\<lambda>ev. ev = DbCommit) (log (delete_email email_id em d))
   \<and> (List.find (\<lambda>u. u_email u = em) (users d) = Some usr
        \<and> find_email d email_id usr = Some r \<longrightarrow>
      response (get_email email_id em d) = EmailResponse (r\<lparr>e_is_read := True\<rparr>)
      \<and> find_email (db_after (get_email email_id em d)) email_id usr
          = Some (r\<lparr>e_is_read := True\<rparr>)
      \<and> (\<not> e_is_read r \<longrightarrow>
           db_after (get_email email_id em d) =
             d\<lparr>emails := update_email (emails d) (e_id r) (\<lambda>x. x\<lparr>e_is_read := True\<rparr>)\<rparr>
           \<and> log (get_email email_id em d) = [DbCommit])
      \<and> (e_is_read r \<longrightarrow>
           db_after (get_email email_id em d) = d \<and> log (get_email email_id em d) = []))
   \<and> (List.find (\<lambda>u. u_email u = em) (users d) = Some usr
        \<and> List.find (\<lambda>x. e_id x = email_id \<and> e_user_id x = u_id usr) (emails d) = Some r' \<longrightarrow>
      response (delete_email email_id em d) = Json [(''message'', JStr ''Email deleted'')]
      \<and> db_after (delete_email email_id em d) =
           d\<lparr>emails := update_email (emails d) (e_id r') (\<lambda>x. x\<lparr>e_is_deleted := True\<rparr>)\<rparr>
      \<and> List.find (\<lambda>x. e_id x = email_id \<and> e_user_id x = u_id usr)
            (emails (db_after (delete_email email_id em d)))
          = Some (r'\<lparr>e_is_deleted := True\<rparr>)
      \<and> log (delete_email email_id em d) = [DbCommit])
   \<and> (List.find (\<lambda>u. u_email u = em) (users d) = Some usr
        \<and> find_email d email_id usr = Some r \<longrightarrow>
      (\<exists>rest. log (toggle_star_email rem email_id em d)
                = DbCommit # Gateway BuildService # rest)
      \<and> db_after (toggle_star_email rem email_id em d) =
           d\<lparr>emails := update_email (emails d) (e_id r)
                (\<lambda>x. x\<lparr>e_is_starred := \<not> e_is_starred r\<rparr>)\<rparr>
      \<and> (build_service_result rem = Returned () \<longrightarrow>
           (\<exists>rest. log (toggle_star_email rem email_id em d)
                = DbCommit # Gateway BuildService #
                  Gateway (ModifyMessage (e_message_id r)
                    (if e_is_starred r then [] else [''STARRED''])
                    (if e_is_starred r then [''STARRED''] else [])) # rest)))"
proof -
  have a: "list_all (\<lambda>ev. ev = DbCommit) (log (get_email email_id em d))"
    by (simp add: get_email_def split: option.splits)
  have b: "list_all (\<lambda>ev. ev = DbCommit) (log (delete_email email_id em d))"
    by (simp add: delete_email_def split: option.splits)
  have g: "response (get_email email_id em d) = EmailResponse (r\<lparr>e_is_read := True\<rparr>)
      \<and> find_email (db_after (get_email email_id em d)) email_id usr
          = Some (r\<lparr>e_is_read := True\<rparr>)
      \<and> (\<not> e_is_read r \<longrightarrow>
           db_after (get_email email_id em d) =
             d\<lparr>emails := update_email (emails d) (e_id r) (\<lambda>x. x\<lparr>e_is_read := True\<rparr>)\<rparr>
           \<and> log (get_email email_id em d) = [DbCommit])
      \<and> (e_is_read r \<longrightarrow>
           db_after (get_email email_id em d) = d \<and> log (get_email email_id em d) = [])"
    if usr: "List.find (\<lambda>u. u_email u = em) (users d) = Some usr"
      and row: "find_email d email_id usr = Some r"
  proof (cases "e_is_read r")
    case True
    then have same: "r\<lparr>e_is_read := True\<rparr> = r" by simp
    from usr row True have res: "get_email email_id em d =
        \<lparr>db_after = d, response = EmailResponse r, log = []\<rparr>"
      by (simp add: get_email_def)
    from res row same True show ?thesis by simp
  next
    case False
    let ?d' = "d\<lparr>emails := update_email (emails d) (e_id r) (\<lambda>x. x\<lparr>e_is_read := True\<rparr>)\<rparr>"
    from usr row False have res: "get_email email_id em d =
        \<lparr>db_after = ?d', response = EmailResponse (r\<lparr>e_is_read := True\<rparr>), log = [DbCommit]\<rparr>"
      by (simp add: get_email_def)
    have found: "find_email ?d' email_id usr = Some (r\<lparr>e_is_read := True\<rparr>)"
      using row by (simp add: find_email_update)
    from False found show ?thesis unfolding res by simp
  qed
  have dl: "response (delete_email email_id em d) = Json [(''message'', JStr ''Email deleted'')]
      \<and> db_after (delete_email email_id em d) =
           d\<lparr>emails := update_email (emails d) (e_id r') (\<lambda>x. x\<lparr>e_is_deleted := True\<rparr>)\<rparr>
      \<and> List.find (\<lambda>x. e_id x = email_id \<and> e_user_id x = u_id usr)
            (emails (db_after (delete_email email_id em d)))
          = Some (r'\<lparr>e_is_deleted := True\<rparr>)
      \<and> log (delete_email email_id em d) = [DbCommit]"
    if usr: "List.find (\<lambda>u. u_email u = em) (users d) = Some usr"
      and row: "List.find (\<lambda>x. e_id x = email_id \<and> e_user_id x = u_id usr) (emails d) = Some r'"
  proof -
    let ?d' = "d\<lparr>emails := update_email (emails d) (e_id r') (\<lambda>x. x\<lparr>e_is_deleted := True\<rparr>)\<rparr>"
    from usr row have res: "delete_email email_id em d =
        \<lparr>db_after = ?d', response = Json [(''message'', JStr ''Email deleted'')],
         log = [DbCommit]\<rparr>"
      by (simp add: delete_email_def)
    have id: "e_id r' = email_id"
      using row by (auto dest: find_Some_iff [THEN iffD1])
    have "List.find (\<lambda>x. e_id x = email_id \<and> e_user_id x = u_id usr)
            (map (\<lambda>x. if e_id x = e_id r' then x\<lparr>e_is_deleted := True\<rparr> else x) (emails d))
          = map_option (\<lambda>x. if e_id x = e_id r' then x\<lparr>e_is_deleted := True\<rparr> else x)
              (List.find (\<lambda>x. e_id x = email_id \<and> e_user_id x = u_id usr) (emails d))"
      by (rule find_map_preserved) simp
    with row have found: "List.find (\<lambda>x. e_id x = email_id \<and> e_user_id x = u_id usr)
            (emails ?d') = Some (r'\<lparr>e_is_deleted := True\<rparr>)"
      by (simp add: update_email_def)
    from found show ?thesis unfolding res by simp
  qed
  have c: "(\<exists>rest. log (toggle_star_email rem email_id em d)
                = DbCommit # Gateway BuildService # rest)
      \<and> db_after (toggle_star_email rem email_id em d) =
           d\<lparr>emails := update_email (emails d) (e_id r)
                (\<lambda>x. x\<lparr>e_is_starred := \<not> e_is_starred r\<rparr>)\<rparr>
      \<and> (build_service_result rem = Returned () \<longrightarrow>
           (\<exists>rest. log (toggle_star_email rem email_id em d)
                = DbCommit # Gateway BuildService #
                  Gateway (ModifyMessage (e_message_id r)
                    (if e_is_starred r then [] else [''STARRED''])
                    (if e_is_starred r then [''STARRED''] else [])) # rest))"
    if usr: "List.find (\<lambda>u. u_email u = em) (users d) = Some usr"
      and row: "find_email d email_id usr = Some r"
  proof -
    have lg: "log (toggle_star_email rem email_id em d) = DbCommit #
      try_modify rem (e_message_id r) (if e_is_starred r then [] else [''STARRED''])
        (if e_is_starred r then [''STARRED''] else []) ''Failed to update star status in Gmail: ''"
      using usr row by (simp add: toggle_star_email_def Let_def)
    have dba: "db_after (toggle_star_email rem email_id em d) =
           d\<lparr>emails := update_email (emails d) (e_id r)
                (\<lambda>x. x\<lparr>e_is_starred := \<not> e_is_starred r\<rparr>)\<rparr>"
      using usr row by (simp add: toggle_star_email_def Let_def)
    from try_modify_shape [of rem "e_message_id r"] lg
    have s1: "\<exists>rest. log (toggle_star_email rem email_id em d)
                = DbCommit # Gateway BuildService # rest"
      by (metis)
    have s2: "\<exists>rest. log (toggle_star_email rem email_id em d)
                = DbCommit # Gateway BuildService #
                  Gateway (ModifyMessage (e_message_id r)
                    (if e_is_starred r then [] else [''STARRED''])
                    (if e_is_starred r then [''STARRED''] else [])) # rest"
      if "build_service_result rem = Returned ()"
      using try_modify_calls [OF that] lg by (metis)
    from s1 s2 dba show ?thesis by blast
  qed
  from a b g dl c show ?thesis by blast
qed

theorem C7_only_star_is_mirrored_witness:
  "get_email 1 ''ann@example.org'' db1 =
     \<lparr>db_after = \<lparr>users = [ann], emails = [mail1\<lparr>e_is_read := True\<rparr>]\<rparr>,
      response = EmailResponse (mail1\<lparr>e_is_read := True\<rparr>),
      log = [DbCommit]\<rparr>
   \<and> find_email (db_after (get_email 1 ''ann@example.org'' db1)) 1 ann
       = Some (mail1\<lparr>e_is_read := True\<rparr>)
   \<and> List.find (\<lambda>x. e_id x = 1 \<and> e_user_id x = u_id ann)
        (emails (db_after (delete_email 1 ''ann@example.org'' db1)))
       = Some (mail1\<lparr>e_is_deleted := True\<rparr>)
   \<and> log (delete_email 1 ''ann@example.org'' db1) = [DbCommit]
   \<and> log (toggle_star_email remote_up 1 ''ann@example.org'' db1)
       = [DbCommit, Gateway BuildService, Gateway (ModifyMessage ''m1'' [''STARRED''] [])]"
proof -
  have usr: "List.find (\<lambda>u. u_email u = ''ann@example.org'') (users db1) = Some ann"
    by (simp add: db1_def ann_def)
  have row: "find_email db1 1 ann = Some mail1"
    by (simp add: find_email_def db1_def mail1_def ann_def)
  have row': "List.find (\<lambda>x. e_id x = 1 \<and> e_user_id x = u_id ann) (emails db1) = Some mail1"
    by (simp add: db1_def mail1_def ann_def)
  have unread: "\<not> e_is_read mail1"
    by (simp add: mail1_def)
  have b: "build_service_result remote_up = Returned ()"
    by (simp add: remote_up_def)
  have run: "log (toggle_star_email remote_up 1 ''ann@example.org'' db1)
       = [DbCommit, Gateway BuildService, Gateway (ModifyMessage ''m1'' [''STARRED''] [])]"
    by (simp add: toggle_star_email_def find_email_def db1_def mail1_def ann_def remote_up_def
        try_modify_def gateway_defs update_email_def Let_def)
  have g: "get_email 1 ''ann@example.org'' db1 =
     \<lparr>db_after = \<lparr>users = [ann], emails = [mail1\<lparr>e_is_read := True\<rparr>]\<rparr>,
      response = EmailResponse (mail1\<lparr>e_is_read := True\<rparr>),
      log = [DbCommit]\<rparr>"
    by (simp add: get_email_def find_email_def db1_def mail1_def ann_def update_email_def)
  note t = C7_only_star_is_mirrored [of 1 "''ann@example.org''" db1 ann mail1 mail1 remote_up]
  from t usr row have f: "find_email (db_after (get_email 1 ''ann@example.org'' db1)) 1 ann
       = Some (mail1\<lparr>e_is_read := True\<rparr>)"
    by blast
  from t usr row' have dl: "List.find (\<lambda>x. e_id x = 1 \<and> e_user_id x = u_id ann)
        (emails (db_after (delete_email 1 ''ann@example.org'' db1)))
       = Some (mail1\<lparr>e_is_deleted := True\<rparr>)
     \<and> log (delete_email 1 ''ann@example.org'' db1) = [DbCommit]"
    by blast
  from g f dl run show ?thesis by blast
qed

section \<open>Soft-deleted rows\<close>

text \<open>
  Claim C10: for a message of the user whose \<^verbatim>\<open>is_deleted\<close> flag is set, fetching it
  and the three star endpoints answer 404 \<^verbatim>\<open>Email not found\<close> and change nothing, exactly
  as they do for an id that is in no row, while the delete endpoint still finds the row and
  succeeds, leaving the store (and so the flag) as it was.
\<close>

theorem C10_deleted_rows_invisible:
  assumes usr: "List.find (\<lambda>u. u_email u = em) (users d) = Some usr"
    and pk: "distinct (map e_id (emails d))"
    and row: "r \<in> set (emails d)" "e_user_id r = u_id usr" "e_is_deleted r"
    and other: "k \<notin> set (map e_id (emails d))"
  shows "get_email (e_id r) em d = not_found d
       \<and> toggle_star_email rem (e_id r) em d = not_found d
       \<and> star_email rem (e_id r) em d = not_found d
       \<and> unstar_email rem (e_id r) em d = not_found d
       \<and> get_email k em d = not_found d
       \<and> toggle_star_email rem k em d = not_found d
       \<and> star_email rem k em d = not_found d
       \<and> unstar_email rem k em d = not_found d
       \<and> delete_email (e_id r) em d =
           \<lparr>db_after = d, response = Json [(''message'', JStr ''Email deleted'')],
            log = [DbCommit]\<rparr>
       \<and> delete_email k em d = not_found d"
proof -
  have gone: "find_email d (e_id r) usr = None"
    unfolding find_email_def
    using find_by_key [OF pk row(1), of "\<lambda>x. e_user_id x = u_id usr \<and> e_is_deleted x = False"]
      row(3)
    by simp
  have absent: "find_email d k usr = None"
    unfolding find_email_def
    using find_absent_key [OF other, of "\<lambda>x. e_user_id x = u_id usr \<and> e_is_deleted x = False"]
    by simp
  have there: "List.find (\<lambda>x. e_id x = e_id r \<and> e_user_id x = u_id usr) (emails d) = Some r"
    using find_by_key [OF pk row(1), of "\<lambda>x. e_user_id x = u_id usr"] row(2) by simp
  have absent': "List.find (\<lambda>x. e_id x = k \<and> e_user_id x = u_id usr) (emails d) = None"
    using find_absent_key [OF other, of "\<lambda>x. e_user_id x = u_id usr"] by simp
  have same: "update_email (emails d) (e_id r) (\<lambda>x. x\<lparr>e_is_deleted := True\<rparr>) = emails d"
    using update_email_same [OF pk row(1), of "\<lambda>x. x\<lparr>e_is_deleted := True\<rparr>"] row(3) by simp
  have g1: "get_email (e_id r) em d = not_found d"
    using usr gone by (simp add: get_email_def not_found_def)
  have g2: "toggle_star_email rem (e_id r) em d = not_found d"
    using usr gone by (simp add: toggle_star_email_def not_found_def)
  have g3: "star_email rem (e_id r) em d = not_found d"
    using usr gone by (simp add: star_email_def not_found_def)
  have g4: "unstar_email rem (e_id r) em d = not_found d"
    using usr gone by (simp add: unstar_email_def not_found_def)
  have a1: "get_email k em d = not_found d"
    using usr absent by (simp add: get_email_def not_found_def)
  have a2: "toggle_star_email rem k em d = not_found d"
    using usr absent by (simp add: toggle_star_email_def not_found_def)
  have a3: "star_email rem k em d = not_found d"
    using usr absent by (simp add: star_email_def not_found_def)
  have a4: "unstar_email rem k em d = not_found d"
    using usr absent by (simp add: unstar_email_def not_found_def)
  have d1: "delete_email (e_id r) em d =
           \<lparr>db_after = d, response = Json [(''message'', JStr ''Email deleted'')],
            log = [DbCommit]\<rparr>"
    using usr there same by (simp add: delete_email_def)
  have d2: "delete_email k em d = not_found d"
    using usr absent' by (simp add: delete_email_def not_found_def)
  from g1 g2 g3 g4 a1 a2 a3 a4 d1 d2 show ?thesis by blast
qed

theorem C10_deleted_rows_invisible_witness:
  "get_email 1 ''ann@example.org'' db1_deleted = not_found db1_deleted
   \<and> toggle_star_email remote_down 1 ''ann@example.org'' db1_deleted = not_found db1_deleted
   \<and> star_email remote_down 1 ''ann@example.org'' db1_deleted = not_found db1_deleted
   \<and> unstar_email remote_down 1 ''ann@example.org'' db1_deleted = not_found db1_deleted
   \<and> get_email 7 ''ann@example.org'' db1_deleted = not_found db1_deleted
   \<and> delete_email 1 ''ann@example.org'' db1_deleted =
       \<lparr>db_after = db1_deleted, response = Json [(''message'', JStr ''Email deleted'')],
        log = [DbCommit]\<rparr>
   \<and> map e_is_deleted (emails (db_after (delete_email 1 ''ann@example.org'' db1_deleted)))
       = [True]"
proof -
  have usr: "List.find (\<lambda>u. u_email u = ''ann@example.org'') (users db1_deleted) = Some ann"
    by (simp add: db1_deleted_def ann_def)
  have pk: "distinct (map e_id (emails db1_deleted))"
    by (simp add: db1_deleted_def)
  have row: "mail1_deleted \<in> set (emails db1_deleted)" "e_user_id mail1_deleted = u_id ann"
    "e_is_deleted mail1_deleted"
    by (simp_all add: db1_deleted_def mail1_deleted_def mail1_def ann_def)
  have other: "7 \<notin> set (map e_id (emails db1_deleted))"
    by (simp add: db1_deleted_def mail1_deleted_def mail1_def)
  have id: "e_id mail1_deleted = 1"
    by (simp add: mail1_deleted_def mail1_def)
  from C10_deleted_rows_invisible [OF usr pk row other, of remote_down]
  show ?thesis
    unfolding id by (simp add: db1_deleted_def mail1_deleted_def)
qed

section \<open>Properties of the sync\<close>

lemma flush_emails_appends:
  assumes "flush_emails rows uid ps = Inr rows'"
  shows "\<exists>new. rows' = rows @ new"
  using assms
proof (induction ps arbitrary: rows)
  case Nil
  then show ?case by simp
next
  case (Cons p ps)
  then show ?case
    by (fastforce simp: insert_email_def split: if_splits sum.splits)
qed

lemma flush_emails_distinct:
  assumes "flush_emails rows uid ps = Inr rows'"
    and "distinct (map e_message_id rows)"
  shows "distinct (map e_message_id rows')"
  using assms
proof (induction ps arbitrary: rows)
  case Nil
  then show ?case by simp
next
  case (Cons p ps)
  from Cons.prems(1) obtain rows1 where
    i: "insert_email rows uid p = Inr rows1" and f: "flush_emails rows1 uid ps = Inr rows'"
    by (auto split: sum.splits)
  from i Cons.prems(2) have "distinct (map e_message_id rows1)"
    by (auto simp: insert_email_def split: if_splits)
  with Cons.IH [OF f] show ?case .
qed

lemma sync_emails_cases:
  "db_after (sync_emails rem em d) = d
   \<or> (\<exists>(usr :: user) pending rows. flush_emails (emails d) (u_id usr) pending = Inr rows
        \<and> db_after (sync_emails rem em d) = d\<lparr>emails := rows\<rparr>)"
  by (auto simp: sync_emails_def sync_try_def split: option.splits prod.splits sum.splits; blast)

lemma sync_emails_appends:
  "\<exists>new. emails (db_after (sync_emails rem em d)) = emails d @ new"
  using sync_emails_cases [of rem em d]
  by (auto dest: flush_emails_appends)

lemma sync_emails_users:
  "users (db_after (sync_emails rem em d)) = users d"
  using sync_emails_cases [of rem em d] by auto

lemma sync_emails_distinct:
  assumes "distinct (map e_message_id (emails d))"
  shows "distinct (map e_message_id (emails (db_after (sync_emails rem em d))))"
  using sync_emails_cases [of rem em d] assms
  by (auto dest: flush_emails_distinct)

lemma sync_many_distinct:
  assumes "distinct (map e_message_id (emails d))"
  shows "distinct (map e_message_id (emails (sync_many reqs d)))"
  using assms
proof (induction reqs arbitrary: d)
  case Nil
  then show ?case by simp
next
  case (Cons q reqs)
  obtain rem em where q: "q = (rem, em)" by (cases q)
  from Cons.prems have "distinct (map e_message_id (emails (db_after (sync_emails rem em d))))"
    by (rule sync_emails_distinct)
  from Cons.IH [OF this] q show ?case by simp
qed

lemma sync_many_appends:
  "\<exists>new. emails (sync_many reqs d) = emails d @ new"
proof (induction reqs arbitrary: d)
  case Nil
  then show ?case by simp
next
  case (Cons q reqs)
  obtain rem em where q: "q = (rem, em)" by (cases q)
  from sync_emails_appends obtain n1 where
    n1: "emails (db_after (sync_emails rem em d)) = emails d @ n1" by blast
  from Cons.IH [of "db_after (sync_emails rem em d)"] obtain n2 where
    "emails (sync_many reqs (db_after (sync_emails rem em d)))
      = emails (db_after (sync_emails rem em d)) @ n2" by blast
  with n1 q show ?case by simp
qed

lemma get_message_events:
  "Gateway (GetMessage mid) \<in> set (fst (get_message rem mid')) \<Longrightarrow> mid = mid'"
  by (cases "get_message_result rem mid'")
     (auto simp: get_message_def split: py_exception.splits)

lemma sync_loop_fetches:
  assumes "Gateway (GetMessage mid) \<in> set (fst (sync_loop rem rows ids pending n))"
  shows "mid \<notin> set (map e_message_id rows)"
  using assms
proof (induction ids arbitrary: pending n)
  case Nil
  then show ?case by simp
next
  case (Cons i ids)
  show ?case
  proof (cases "List.find (\<lambda>r. e_message_id r = i) rows")
    case (Some a)
    with Cons show ?thesis by simp
  next
    case None
    then have fresh: "i \<notin> set (map e_message_id rows)"
      by (auto simp: find_None_iff)
    obtain ev res where g: "get_message rem i = (ev, res)" by (cases "get_message rem i")
    from Cons.prems None g
    have "Gateway (GetMessage mid) \<in> set ev
          \<or> (\<exists>p' n'. Gateway (GetMessage mid) \<in> set (fst (sync_loop rem rows ids p' n')))"
      by (auto simp: prepend_def split: sum.splits option.splits if_splits)
    then show ?thesis
    proof
      assume "Gateway (GetMessage mid) \<in> set ev"
      with g get_message_events [of mid rem i] have "mid = i" by simp
      with fresh show ?thesis by simp
    next
      assume "\<exists>p' n'. Gateway (GetMessage mid) \<in> set (fst (sync_loop rem rows ids p' n'))"
      with Cons.IH show ?thesis by blast
    qed
  qed
qed

lemma sync_loop_fetches_pair:
  assumes "sync_loop rem rows ids pending n = (ev, res)"
    and "Gateway (GetMessage mid) \<in> set ev"
  shows "mid \<notin> set (map e_message_id rows)"
  using sync_loop_fetches [of mid rem rows ids pending n] assms by simp

lemma sync_emails_fetches:
  assumes "Gateway (GetMessage mid) \<in> set (log (sync_emails rem em d))"
  shows "mid \<notin> set (map e_message_id (emails d))"
  using assms
  by (auto simp: sync_emails_def sync_try_def build_service_def list_messages_def
      split: option.splits prod.splits sum.splits remote_result.splits py_exception.splits
      dest: sync_loop_fetches_pair)


lemma one_row_per_key:
  assumes "distinct (map f rows)" and "k \<in> set (map f rows)"
  shows "length (filter (\<lambda>r. f r = k) rows) = 1"
  using assms
proof (induction rows)
  case Nil
  then show ?case by simp
next
  case (Cons a rows)
  show ?case
  proof (cases "f a = k")
    case True
    with Cons.prems(1) have "k \<notin> f ` set rows" by simp
    then have "\<forall>r \<in> set rows. f r \<noteq> k" by blast
    then have "filter (\<lambda>r. f r = k) rows = []" by (simp add: filter_empty_conv)
    with True show ?thesis by simp
  next
    case False
    with Cons show ?thesis by auto
  qed
qed

text \<open>
  Claim C4: from a store with at most one row per remote message id, any sequence of sync
  requests (of any users, against any provider behaviour) leads to a store with at most one
  row per remote message id, over the whole table; the rows that were there stay in place
  unchanged, a message id that is present (for whichever user) is never fetched, and it keeps
  exactly one row.
\<close>

theorem C4_no_duplicate_mirror_rows:
  assumes "distinct (map e_message_id (emails d))"
  shows "distinct (map e_message_id (emails (sync_many reqs d)))
       \<and> (\<exists>new. emails (sync_many reqs d) = emails d @ new)
       \<and> (mid \<in> set (map e_message_id (emails d)) \<longrightarrow>
            Gateway (GetMessage mid) \<notin> set (log (sync_emails rem em d))
            \<and> length (filter (\<lambda>r. e_message_id r = mid) (emails (sync_many reqs d))) = 1)"
proof -
  have a: "distinct (map e_message_id (emails (sync_many reqs d)))"
    using assms by (rule sync_many_distinct)
  have b: "\<exists>new. emails (sync_many reqs d) = emails d @ new"
    by (rule sync_many_appends)
  have c: "Gateway (GetMessage mid) \<notin> set (log (sync_emails rem em d))"
    if "mid \<in> set (map e_message_id (emails d))"
    using that sync_emails_fetches by blast
  have e: "length (filter (\<lambda>r. e_message_id r = mid) (emails (sync_many reqs d))) = 1"
    if m: "mid \<in> set (map e_message_id (emails d))"
  proof -
    from b m have "mid \<in> set (map e_message_id (emails (sync_many reqs d)))" by auto
    with a show ?thesis by (rule one_row_per_key)
  qed
  from a b c e show ?thesis by blast
qed

theorem C4_no_duplicate_mirror_rows_witness:
  "distinct (map e_message_id (emails db1))
   \<and> map e_message_id
        (emails (sync_many [(remote_up, ''ann@example.org''), (remote_up, ''ann@example.org'')] db1))
       = [''m1'', ''m2'']
   \<and> Gateway (GetMessage ''m1'') \<notin> set (log (sync_emails remote_up ''ann@example.org'' db1))
   \<and> length (filter (\<lambda>r. e_message_id r = ''m1'')
        (emails (sync_many [(remote_up, ''ann@example.org''), (remote_up, ''ann@example.org'')] db1)))
       = 1"
proof -
  have h: "distinct (map e_message_id (emails db1))"
    by (simp add: db1_def)
  have m: "''m1'' \<in> set (map e_message_id (emails db1))"
    by (simp add: db1_def mail1_def)
  have run: "map e_message_id
        (emails (sync_many [(remote_up, ''ann@example.org''), (remote_up, ''ann@example.org'')] db1))
       = [''m1'', ''m2'']"
    by code_simp
  from C4_no_duplicate_mirror_rows [OF h,
      of "[(remote_up, ''ann@example.org''), (remote_up, ''ann@example.org'')]" "''m1''"
         remote_up "''ann@example.org''"] m h run
  show ?thesis by blast
qed

lemma sync_loop_append:
  "sync_loop rem rows (xs @ ys) pending n =
     (case sync_loop rem rows xs pending n of
        (ev, Inl e) \<Rightarrow> (ev, Inl e)
      | (ev, Inr (p', n')) \<Rightarrow> prepend ev (sync_loop rem rows ys p' n'))"
proof (induction xs arbitrary: pending n)
  case Nil
  then show ?case by (simp add: prepend_def)
next
  case (Cons x xs)
  show ?case
  proof (cases "List.find (\<lambda>r. e_message_id r = x) rows")
    case (Some a)
    with Cons.IH show ?thesis by simp
  next
    case None
    obtain ev res where g: "get_message rem x = (ev, res)" by (cases "get_message rem x")
    show ?thesis
      using None g Cons.IH
      by (auto simp: prepend_def split: sum.splits option.splits prod.splits)
  qed
qed

lemma get_message_no_commit:
  "DbCommit \<notin> set (fst (get_message rem mid))"
  by (cases "get_message_result rem mid")
     (auto simp: get_message_def split: py_exception.splits)

lemma sync_loop_no_commit:
  "DbCommit \<notin> set (fst (sync_loop rem rows ids pending n))"
proof (induction ids arbitrary: pending n)
  case Nil
  then show ?case by simp
next
  case (Cons x xs)
  show ?case
  proof (cases "List.find (\<lambda>r. e_message_id r = x) rows")
    case (Some a)
    with Cons.IH show ?thesis by simp
  next
    case None
    obtain ev res where g: "get_message rem x = (ev, res)" by (cases "get_message rem x")
    with get_message_no_commit [of rem x] have "DbCommit \<notin> set ev" by simp
    with None g Cons.IH show ?thesis
      by (auto simp: prepend_def split: sum.splits option.splits prod.splits)
  qed
qed

lemma sync_error_keeps_db:
  assumes "is_error (response (sync_emails rem em d))"
  shows "db_after (sync_emails rem em d) = d"
  using assms
  by (auto simp: sync_emails_def sync_try_def split: option.splits prod.splits sum.splits)

lemma sync_try_raises:
  assumes "List.find (\<lambda>u. u_email u = em) (users d) = Some usr"
    and "sync_try rem usr d = (ev, Inl e)"
  shows "sync_emails rem em d =
     \<lparr>db_after = d, response = HTTPException 500 ''Sync failed: '' (Some e),
      log = ev @ [DbRollback]\<rparr>"
  using assms by (simp add: sync_emails_def)

lemma sync_error_is_rollback:
  assumes "List.find (\<lambda>u. u_email u = em) (users d) = Some usr"
    and "is_error (response (sync_emails rem em d))"
  shows "\<exists>e ev. sync_emails rem em d =
     \<lparr>db_after = d, response = HTTPException 500 ''Sync failed: '' (Some e),
      log = ev @ [DbRollback]\<rparr>"
  using assms
  by (auto simp: sync_emails_def sync_try_def split: option.splits prod.splits sum.splits)

text \<open>
  Claim C5: for a sync of an existing user, every exception raised while the new messages
  are processed is surfaced as status 500 carrying that exception, and leaves the store
  exactly as it was before the request (none of the new rows, every old row), the last
  effect being the rollback. This holds when the service cannot be built, when the listing
  raises anything but an \<^verbatim>\<open>HttpError\<close>, when (the listing being \<open>pre @ mid # post\<close>
  and \<open>pre\<close> processed without an exception) the fetch of the new message \<open>mid\<close>
  raises anything but an \<^verbatim>\<open>HttpError\<close> or the fetched message fails to parse, and when
  the insertion of the collected rows is refused at the commit; until the commit is reached
  none is attempted. Conversely, every error answer of such a sync is a rolled-back 500, and
  whenever any sync answers with an error the store is unchanged.
\<close>

theorem C5_sync_failure_rolls_back:
  assumes usr: "List.find (\<lambda>u. u_email u = em) (users d) = Some usr"
  shows "(build_service_result rem = Raised e \<longrightarrow>
            response (sync_emails rem em d) = HTTPException 500 ''Sync failed: '' (Some e)
            \<and> db_after (sync_emails rem em d) = d
            \<and> last (log (sync_emails rem em d)) = DbRollback
            \<and> DbCommit \<notin> set (log (sync_emails rem em d)))
       \<and> (build_service_result rem = Returned ()
          \<and> list_messages_result rem = Raised e \<and> (\<forall>h. e \<noteq> HttpError h) \<longrightarrow>
            response (sync_emails rem em d) = HTTPException 500 ''Sync failed: '' (Some e)
            \<and> db_after (sync_emails rem em d) = d
            \<and> last (log (sync_emails rem em d)) = DbRollback
            \<and> DbCommit \<notin> set (log (sync_emails rem em d)))
       \<and> (build_service_result rem = Returned ()
          \<and> list_messages_result rem = Returned (Some (pre @ mid # post))
          \<and> snd (sync_loop rem (emails d) pre [] 0) = Inr (pending, n)
          \<and> mid \<notin> set (map e_message_id (emails d))
          \<and> (get_message_result rem mid = Raised e \<and> (\<forall>h. e \<noteq> HttpError h)
              \<or> (\<exists>m. get_message_result rem mid = Returned m \<and> \<not> message_is_empty m
                      \<and> parse_message m = Inl e)) \<longrightarrow>
            response (sync_emails rem em d) = HTTPException 500 ''Sync failed: '' (Some e)
            \<and> db_after (sync_emails rem em d) = d
            \<and> last (log (sync_emails rem em d)) = DbRollback
            \<and> DbCommit \<notin> set (log (sync_emails rem em d)))
       \<and> (build_service_result rem = Returned ()
          \<and> list_messages_result rem = Returned (Some ids)
          \<and> snd (sync_loop rem (emails d) ids [] 0) = Inr (pending, n)
          \<and> flush_emails (emails d) (u_id usr) pending = Inl e \<longrightarrow>
            response (sync_emails rem em d) = HTTPException 500 ''Sync failed: '' (Some e)
            \<and> db_after (sync_emails rem em d) = d
            \<and> last (log (sync_emails rem em d)) = DbRollback)
       \<and> (is_error (response (sync_emails rem em d)) \<longrightarrow>
            (\<exists>x. response (sync_emails rem em d) = HTTPException 500 ''Sync failed: '' (Some x))
            \<and> db_after (sync_emails rem em d) = d
            \<and> last (log (sync_emails rem em d)) = DbRollback)
       \<and> (is_error (response (sync_emails rem' em' d)) \<longrightarrow>
            db_after (sync_emails rem' em' d) = d)"
proof -
  have A: "response (sync_emails rem em d) = HTTPException 500 ''Sync failed: '' (Some e)
            \<and> db_after (sync_emails rem em d) = d
            \<and> last (log (sync_emails rem em d)) = DbRollback
            \<and> DbCommit \<notin> set (log (sync_emails rem em d))"
    if "build_service_result rem = Raised e"
  proof -
    have "sync_try rem usr d = ([Gateway BuildService], Inl e)"
      using that by (simp add: sync_try_def build_service_def)
    from sync_try_raises [OF usr this] show ?thesis by simp
  qed
  have B: "response (sync_emails rem em d) = HTTPException 500 ''Sync failed: '' (Some e)
            \<and> db_after (sync_emails rem em d) = d
            \<and> last (log (sync_emails rem em d)) = DbRollback
            \<and> DbCommit \<notin> set (log (sync_emails rem em d))"
    if b: "build_service_result rem = Returned ()"
      and l: "list_messages_result rem = Raised e" and nh: "\<forall>h. e \<noteq> HttpError h"
  proof -
    have "list_messages rem = ([Gateway ListMessages], Inl e)"
      using l nh by (cases e) (simp_all add: list_messages_def)
    then have "sync_try rem usr d = ([Gateway BuildService, Gateway ListMessages], Inl e)"
      using b by (simp add: sync_try_def build_service_def)
    from sync_try_raises [OF usr this] show ?thesis by simp
  qed
  have C: "response (sync_emails rem em d) = HTTPException 500 ''Sync failed: '' (Some e)
            \<and> db_after (sync_emails rem em d) = d
            \<and> last (log (sync_emails rem em d)) = DbRollback
            \<and> DbCommit \<notin> set (log (sync_emails rem em d))"
    if b: "build_service_result rem = Returned ()"
      and l: "list_messages_result rem = Returned (Some (pre @ mid # post))"
      and pre_ok: "snd (sync_loop rem (emails d) pre [] 0) = Inr (pending, n)"
      and new: "mid \<notin> set (map e_message_id (emails d))"
      and raises: "get_message_result rem mid = Raised e \<and> (\<forall>h. e \<noteq> HttpError h)
              \<or> (\<exists>m. get_message_result rem mid = Returned m \<and> \<not> message_is_empty m
                      \<and> parse_message m = Inl e)"
  proof -
    obtain ev0 where pre: "sync_loop rem (emails d) pre [] 0 = (ev0, Inr (pending, n))"
      using pre_ok by (cases "sync_loop rem (emails d) pre [] 0") simp
    have nf: "List.find (\<lambda>r. e_message_id r = mid) (emails d) = None"
      using new by (auto simp: find_None_iff)
    have gm: "get_message rem mid = ([Gateway (GetMessage mid)], Inl e)
              \<or> (\<exists>m. get_message rem mid = ([Gateway (GetMessage mid)], Inr (Some m))
                     \<and> \<not> message_is_empty m \<and> parse_message m = Inl e)"
      using raises by (cases e) (auto simp: get_message_def)
    have one: "sync_loop rem (emails d) (mid # post) pending n
               = ([Gateway (GetMessage mid)], Inl e)"
      using gm by (auto simp: nf)
    have loop: "sync_loop rem (emails d) (pre @ mid # post) [] 0
                = (ev0 @ [Gateway (GetMessage mid)], Inl e)"
      by (simp add: sync_loop_append pre one prepend_def del: sync_loop.simps)
    have nc: "DbCommit \<notin> set ev0"
      using sync_loop_no_commit [of rem "emails d" pre "[]" 0] pre by simp
    have "sync_try rem usr d =
        ([Gateway BuildService, Gateway ListMessages] @ ev0 @ [Gateway (GetMessage mid)], Inl e)"
      using b l loop by (simp add: sync_try_def build_service_def list_messages_def)
    from sync_try_raises [OF usr this] nc show ?thesis by simp
  qed
  have D: "response (sync_emails rem em d) = HTTPException 500 ''Sync failed: '' (Some e)
            \<and> db_after (sync_emails rem em d) = d
            \<and> last (log (sync_emails rem em d)) = DbRollback"
    if b: "build_service_result rem = Returned ()"
      and l: "list_messages_result rem = Returned (Some ids)"
      and ok: "snd (sync_loop rem (emails d) ids [] 0) = Inr (pending, n)"
      and fl: "flush_emails (emails d) (u_id usr) pending = Inl e"
  proof -
    obtain ev0 where lp: "sync_loop rem (emails d) ids [] 0 = (ev0, Inr (pending, n))"
      using ok by (cases "sync_loop rem (emails d) ids [] 0") simp
    have "sync_try rem usr d =
        ([Gateway BuildService, Gateway ListMessages] @ ev0 @ [DbCommit], Inl e)"
      using b l lp fl by (simp add: sync_try_def build_service_def list_messages_def)
    from sync_try_raises [OF usr this] show ?thesis by simp
  qed
  have E: "(\<exists>x. response (sync_emails rem em d) = HTTPException 500 ''Sync failed: '' (Some x))
            \<and> db_after (sync_emails rem em d) = d
            \<and> last (log (sync_emails rem em d)) = DbRollback"
    if "is_error (response (sync_emails rem em d))"
    using sync_error_is_rollback [OF usr that] by auto
  have F: "is_error (response (sync_emails rem' em' d)) \<longrightarrow>
            db_after (sync_emails rem' em' d) = d"
    using sync_error_keeps_db by blast
  from A B C D E F show ?thesis by blast
qed


theorem C5_sync_failure_rolls_back_witness:
  "sync_emails remote_bad ''ann@example.org'' db1 =
     \<lparr>db_after = db1,
      response = HTTPException 500 ''Sync failed: ''
        (Some (BinasciiError ''Invalid base64-encoded string'')),
      log = [Gateway BuildService, Gateway ListMessages, Gateway (GetMessage ''m2''),
             Gateway (GetMessage ''m3''), DbRollback]\<rparr>
   \<and> sync_emails remote_fetch_down ''ann@example.org'' db1 =
     \<lparr>db_after = db1,
      response = HTTPException 500 ''Sync failed: '' (Some (TransportTimeout ''timed out'')),
      log = [Gateway BuildService, Gateway ListMessages, Gateway (GetMessage ''m2''),
             DbRollback]\<rparr>
   \<and> sync_emails remote_twice ''ann@example.org'' db1 =
     \<lparr>db_after = db1,
      response = HTTPException 500 ''Sync failed: '' (Some (IntegrityError ''emails.message_id'')),
      log = [Gateway BuildService, Gateway ListMessages, Gateway (GetMessage ''m2''),
             Gateway (GetMessage ''m2''), DbCommit, DbRollback]\<rparr>
   \<and> db_after (sync_emails remote_timeout ''ann@example.org'' db1) = db1
   \<and> response (sync_emails remote_timeout ''ann@example.org'' db1)
       = HTTPException 500 ''Sync failed: '' (Some (TransportTimeout ''timed out''))
   \<and> db_after (sync_emails remote_no_build ''ann@example.org'' db1) = db1
   \<and> response (sync_emails remote_no_build ''ann@example.org'' db1)
       = HTTPException 500 ''Sync failed: '' (Some (RefreshError ''invalid_grant''))"
proof -
  have usr: "List.find (\<lambda>u. u_email u = ''ann@example.org'') (users db1) = Some ann"
    by (simp add: db1_def ann_def)
  note t = C5_sync_failure_rolls_back [OF usr]
  have p1: "build_service_result remote_bad = Returned ()"
    "list_messages_result remote_bad = Returned (Some ([''m1'', ''m2''] @ ''m3'' # []))"
    by (simp_all add: remote_bad_def)
  have p2: "snd (sync_loop remote_bad (emails db1) [''m1'', ''m2''] [] 0) =
     Inr ([\<lparr>p_message_id = ''m2'', p_thread_id = ''t1'', p_subject = ''hello'', p_sender = [],
            p_recipient = [], p_body_text = ''B'', p_body_html = [],
            p_labels = [''INBOX'', ''UNREAD''], p_date = [], p_is_read = False,
            p_is_starred = False\<rparr>], 1)"
    by code_simp
  have p3: "''m3'' \<notin> set (map e_message_id (emails db1))"
    by (simp add: db1_def mail1_def)
  have p4: "get_message_result remote_bad ''m3'' = Returned bad_message"
    "\<not> message_is_empty bad_message"
    by (simp_all add: remote_bad_def message_is_empty_def bad_message_def)
  have p5: "parse_message bad_message = Inl (BinasciiError ''Invalid base64-encoded string'')"
    by code_simp
  have parse: "db_after (sync_emails remote_bad ''ann@example.org'' db1) = db1
      \<and> DbCommit \<notin> set (log (sync_emails remote_bad ''ann@example.org'' db1))"
    using t [of remote_bad "BinasciiError ''Invalid base64-encoded string''"
        "[''m1'', ''m2'']" "''m3''" "[]"] p1 p2 p3 p4 p5
    by blast
  have run1: "sync_emails remote_bad ''ann@example.org'' db1 =
     \<lparr>db_after = db1,
      response = HTTPException 500 ''Sync failed: ''
        (Some (BinasciiError ''Invalid base64-encoded string'')),
      log = [Gateway BuildService, Gateway ListMessages, Gateway (GetMessage ''m2''),
             Gateway (GetMessage ''m3''), DbRollback]\<rparr>"
    by code_simp
  have f1: "build_service_result remote_fetch_down = Returned ()"
    "list_messages_result remote_fetch_down = Returned (Some ([''m1''] @ ''m2'' # []))"
    by (simp_all add: remote_fetch_down_def)
  have f2: "snd (sync_loop remote_fetch_down (emails db1) [''m1''] [] 0) = Inr ([], 0)"
    by code_simp
  have f3: "''m2'' \<notin> set (map e_message_id (emails db1))"
    by (simp add: db1_def mail1_def)
  have f4: "get_message_result remote_fetch_down ''m2'' = Raised (TransportTimeout ''timed out'')
      \<and> (\<forall>h. TransportTimeout ''timed out'' \<noteq> HttpError h)"
    by (simp add: remote_fetch_down_def)
  have fetch: "db_after (sync_emails remote_fetch_down ''ann@example.org'' db1) = db1
      \<and> response (sync_emails remote_fetch_down ''ann@example.org'' db1)
          = HTTPException 500 ''Sync failed: '' (Some (TransportTimeout ''timed out''))"
    using t [of remote_fetch_down "TransportTimeout ''timed out''" "[''m1'']" "''m2''" "[]"]
      f1 f2 f3 f4
    by blast
  have run2: "sync_emails remote_fetch_down ''ann@example.org'' db1 =
     \<lparr>db_after = db1,
      response = HTTPException 500 ''Sync failed: '' (Some (TransportTimeout ''timed out'')),
      log = [Gateway BuildService, Gateway ListMessages, Gateway (GetMessage ''m2''),
             DbRollback]\<rparr>"
    by code_simp
  have c1: "build_service_result remote_twice = Returned ()"
    "list_messages_result remote_twice = Returned (Some [''m2'', ''m2''])"
    by (simp_all add: remote_twice_def)
  let ?p = "\<lparr>p_message_id = ''m2'', p_thread_id = ''t1'', p_subject = ''hello'', p_sender = [],
            p_recipient = [], p_body_text = ''B'', p_body_html = [],
            p_labels = [''INBOX'', ''UNREAD''], p_date = [], p_is_read = False,
            p_is_starred = False\<rparr>"
  have c2: "snd (sync_loop remote_twice (emails db1) [''m2'', ''m2''] [] 0) = Inr ([?p, ?p], 2)"
    by code_simp
  have c3: "flush_emails (emails db1) (u_id ann) [?p, ?p]
            = Inl (IntegrityError ''emails.message_id'')"
    by code_simp
  have commit: "db_after (sync_emails remote_twice ''ann@example.org'' db1) = db1
      \<and> last (log (sync_emails remote_twice ''ann@example.org'' db1)) = DbRollback"
    using t [of remote_twice "IntegrityError ''emails.message_id''" _ _ _ "[?p, ?p]" 2
        "[''m2'', ''m2'']"] c1 c2 c3
    by blast
  have run3: "sync_emails remote_twice ''ann@example.org'' db1 =
     \<lparr>db_after = db1,
      response = HTTPException 500 ''Sync failed: '' (Some (IntegrityError ''emails.message_id'')),
      log = [Gateway BuildService, Gateway ListMessages, Gateway (GetMessage ''m2''),
             Gateway (GetMessage ''m2''), DbCommit, DbRollback]\<rparr>"
    by code_simp
  have l1: "build_service_result remote_timeout = Returned ()
      \<and> list_messages_result remote_timeout = Raised (TransportTimeout ''timed out'')
      \<and> (\<forall>h. TransportTimeout ''timed out'' \<noteq> HttpError h)"
    by (simp add: remote_timeout_def)
  have listing: "db_after (sync_emails remote_timeout ''ann@example.org'' db1) = db1
      \<and> response (sync_emails remote_timeout ''ann@example.org'' db1)
          = HTTPException 500 ''Sync failed: '' (Some (TransportTimeout ''timed out''))"
    using t [of remote_timeout "TransportTimeout ''timed out''"] l1 by blast
  have b1: "build_service_result remote_no_build = Raised (RefreshError ''invalid_grant'')"
    by (simp add: remote_no_build_def)
  have build: "db_after (sync_emails remote_no_build ''ann@example.org'' db1) = db1
      \<and> response (sync_emails remote_no_build ''ann@example.org'' db1)
          = HTTPException 500 ''Sync failed: '' (Some (RefreshError ''invalid_grant''))"
    using t [of remote_no_build "RefreshError ''invalid_grant''"] b1 by blast
  from run1 parse run2 fetch run3 commit listing build show ?thesis by blast
qed

section \<open>Properties of the OAuth callback\<close>

lemma length_filter_map_preserved:
  assumes "\<And>r. P (g r) = P r"
  shows "length (filter P (map g rows)) = length (filter P rows)"
  using assms by (induction rows) simp_all

text \<open>
  Claim C3, as stated, fails: the column \<^verbatim>\<open>google_id\<close> is unique. When the identity's
  id is held by the record of another email, a callback for an email with no record creates
  none, and a callback for an email whose record has an empty provider id leaves that
  record's tokens as they were; both are rolled back and answer 400.
\<close>

theorem C3_unique_id_counterexample:
  "callback provider1 (Some ''code1'') \<lparr>users = [bob], emails = []\<rparr> =
     \<lparr>db_after = \<lparr>users = [bob], emails = []\<rparr>,
      response = HTTPException 400 ''Authentication failed: ''
        (Some (IntegrityError ''users.google_id'')),
      log = [DbCommit, DbRollback]\<rparr>
   \<and> callback provider1 (Some ''code1'') \<lparr>users = [ann_blank, bob], emails = []\<rparr> =
     \<lparr>db_after = \<lparr>users = [ann_blank, bob], emails = []\<rparr>,
      response = HTTPException 400 ''Authentication failed: ''
        (Some (IntegrityError ''users.google_id'')),
      log = [DbCommit, DbRollback]\<rparr>
   \<and> u_email ann_blank = ''ann@example.org''
   \<and> u_access_token ann_blank = Some ''at1''"
  by code_simp

text \<open>
  Claim C3, amended: for a callback whose code is redeemed and whose identity resolves to the
  email \<open>em\<close>. If a record with that email exists and its provider id is non-empty, or
  the identity carries an id that no other record holds, the callback redirects, the record
  found under that email afterwards is the old one with both tokens replaced by the new
  ones, its name and provider id kept when non-empty and filled from the identity when
  empty; the table has as many records as before, as many with that email as before, and
  the other records are untouched. If no record has that email and the identity carries an
  id that no record holds, exactly one record is appended, holding the identity and the new
  tokens. If the id that would be stored is missing from the identity or is held by another
  record, the callback is rolled back and answers 400, and the store is unchanged.
\<close>

theorem C3_callback_upsert:
  assumes code: "code \<noteq> []"
    and exch: "exchange_result prov code = Returned cr"
    and info: "userinfo_result prov (token cr) = Returned user_info"
    and mail: "map_of user_info ''email'' = Some em"
  shows "(List.find (\<lambda>u. u_email u = em) (users d) = Some usr
          \<and> (falsy (u_google_id usr) \<longrightarrow>
                map_of user_info ''id'' = Some gid
                \<and> \<not> google_id_taken (users d) (u_id usr) (Some gid))
          \<and> usr' = usr\<lparr>u_access_token := Some (token cr),
                        u_refresh_token := cred_refresh_token cr,
                        u_google_id := (if falsy (u_google_id usr) then Some gid
                                        else u_google_id usr),
                        u_name := (if falsy (u_name usr)
                                   then Some (dict_get user_info ''name'' [])
                                   else u_name usr)\<rparr>
        \<longrightarrow>
          response (callback prov (Some code) d) = RedirectResponse (success_url usr')
          \<and> List.find (\<lambda>u. u_email u = em) (users (db_after (callback prov (Some code) d)))
              = Some usr'
          \<and> length (users (db_after (callback prov (Some code) d))) = length (users d)
          \<and> length (filter (\<lambda>u. u_email u = em) (users (db_after (callback prov (Some code) d))))
              = length (filter (\<lambda>u. u_email u = em) (users d))
          \<and> (\<forall>r \<in> set (users d). u_id r \<noteq> u_id usr \<longrightarrow>
                r \<in> set (users (db_after (callback prov (Some code) d))))
          \<and> emails (db_after (callback prov (Some code) d)) = emails d)
       \<and> (List.find (\<lambda>u. u_email u = em) (users d) = None
          \<and> map_of user_info ''id'' = Some gid
          \<and> \<not> list_ex (\<lambda>r. u_google_id r = Some gid) (users d)
        \<longrightarrow>
          users (db_after (callback prov (Some code) d)) =
            users d @
              [\<lparr>u_id = next_id (map u_id (users d)), u_email = em,
                u_name = Some (dict_get user_info ''name'' []), u_google_id = Some gid,
                u_access_token = Some (token cr), u_refresh_token = cred_refresh_token cr,
                u_is_active = True\<rparr>]
          \<and> emails (db_after (callback prov (Some code) d)) = emails d)
       \<and> (List.find (\<lambda>u. u_email u = em) (users d) = Some usr
          \<and> falsy (u_google_id usr)
          \<and> (map_of user_info ''id'' = None
              \<or> map_of user_info ''id'' = Some gid \<and> Some gid \<noteq> u_google_id usr
                \<and> google_id_taken (users d) (u_id usr) (Some gid))
        \<longrightarrow>
          db_after (callback prov (Some code) d) = d
          \<and> (\<exists>x. response (callback prov (Some code) d)
                    = HTTPException 400 ''Authentication failed: '' (Some x))
          \<and> last (log (callback prov (Some code) d)) = DbRollback)
       \<and> (List.find (\<lambda>u. u_email u = em) (users d) = None
          \<and> (map_of user_info ''id'' = None
              \<or> map_of user_info ''id'' = Some gid
                \<and> list_ex (\<lambda>r. u_google_id r = Some gid) (users d))
        \<longrightarrow>
          db_after (callback prov (Some code) d) = d
          \<and> (\<exists>x. response (callback prov (Some code) d)
                    = HTTPException 400 ''Authentication failed: '' (Some x))
          \<and> last (log (callback prov (Some code) d)) = DbRollback)"
proof -
  have ne: "user_info \<noteq> []" using mail by auto
  have ctry: "callback_try prov (Some code) d = upsert_user d cr user_info em"
    using code exch info mail ne
    by (simp add: callback_try_def exchange_code_for_tokens_def get_user_info_def prepend_def)
  have A: "response (callback prov (Some code) d) = RedirectResponse (success_url usr')
          \<and> List.find (\<lambda>u. u_email u = em) (users (db_after (callback prov (Some code) d)))
              = Some usr'
          \<and> length (users (db_after (callback prov (Some code) d))) = length (users d)
          \<and> length (filter (\<lambda>u. u_email u = em) (users (db_after (callback prov (Some code) d))))
              = length (filter (\<lambda>u. u_email u = em) (users d))
          \<and> (\<forall>r \<in> set (users d). u_id r \<noteq> u_id usr \<longrightarrow>
                r \<in> set (users (db_after (callback prov (Some code) d))))
          \<and> emails (db_after (callback prov (Some code) d)) = emails d"
    if found: "List.find (\<lambda>u. u_email u = em) (users d) = Some usr"
      and ok: "falsy (u_google_id usr) \<longrightarrow>
                map_of user_info ''id'' = Some gid
                \<and> \<not> google_id_taken (users d) (u_id usr) (Some gid)"
      and u': "usr' = usr\<lparr>u_access_token := Some (token cr),
                        u_refresh_token := cred_refresh_token cr,
                        u_google_id := (if falsy (u_google_id usr) then Some gid
                                        else u_google_id usr),
                        u_name := (if falsy (u_name usr)
                                   then Some (dict_get user_info ''name'' [])
                                   else u_name usr)\<rparr>"
  proof -
    let ?f = "\<lambda>r. r\<lparr>u_access_token := u_access_token usr',
                     u_refresh_token := u_refresh_token usr',
                     u_google_id := u_google_id usr',
                     u_name := u_name usr'\<rparr>"
    have upd: "updated_user usr cr user_info = Inr usr'"
      using ok u' by (auto simp: updated_user_def Let_def)
    have nocoll: "\<not> (u_google_id usr' \<noteq> u_google_id usr
                  \<and> google_id_taken (users d) (u_id usr) (u_google_id usr'))"
      using ok u' by auto
    have ups: "upsert_user d cr user_info em =
        ([DbCommit],
         Inr (d\<lparr>users := update_user (users d) (u_id usr) ?f\<rparr>, RedirectResponse (success_url usr')))"
      using found upd nocoll by (simp add: upsert_user_def)
    have res: "callback prov (Some code) d =
        \<lparr>db_after = d\<lparr>users := update_user (users d) (u_id usr) ?f\<rparr>,
         response = RedirectResponse (success_url usr'), log = [DbCommit]\<rparr>"
      by (simp add: callback_def ctry ups)
    have same: "?f usr = usr'" using u' by simp
    have mailp: "\<And>r. (u_email (if u_id r = u_id usr then ?f r else r) = em) = (u_email r = em)"
      by simp
    have f1: "List.find (\<lambda>u. u_email u = em) (update_user (users d) (u_id usr) ?f) = Some usr'"
      unfolding update_user_def
      using find_map_preserved [of "\<lambda>u. u_email u = em"
          "\<lambda>r. if u_id r = u_id usr then ?f r else r" "users d"] found same
      by simp
    have f2: "length (filter (\<lambda>u. u_email u = em) (update_user (users d) (u_id usr) ?f))
              = length (filter (\<lambda>u. u_email u = em) (users d))"
      unfolding update_user_def
      using length_filter_map_preserved [of "\<lambda>u. u_email u = em"
          "\<lambda>r. if u_id r = u_id usr then ?f r else r" "users d"]
      by simp
    have f3: "\<forall>r \<in> set (users d). u_id r \<noteq> u_id usr \<longrightarrow>
                r \<in> set (update_user (users d) (u_id usr) ?f)"
      unfolding update_user_def by force
    from f1 f2 f3 show ?thesis
      unfolding res by (simp add: update_user_def)
  qed
  have B: "users (db_after (callback prov (Some code) d)) =
            users d @
              [\<lparr>u_id = next_id (map u_id (users d)), u_email = em,
                u_name = Some (dict_get user_info ''name'' []), u_google_id = Some gid,
                u_access_token = Some (token cr), u_refresh_token = cred_refresh_token cr,
                u_is_active = True\<rparr>]
          \<and> emails (db_after (callback prov (Some code) d)) = emails d"
    if absent: "List.find (\<lambda>u. u_email u = em) (users d) = None"
      and gid: "map_of user_info ''id'' = Some gid"
      and free: "\<not> list_ex (\<lambda>r. u_google_id r = Some gid) (users d)"
  proof -
    have "\<not> list_ex (\<lambda>r. u_email r = em) (users d)"
      using absent by (auto simp: find_None_iff list_ex_iff)
    then show ?thesis
      using absent gid free
      by (simp add: callback_def ctry upsert_user_def Let_def)
  qed
  have F1: "db_after (callback prov (Some code) d) = d
          \<and> (\<exists>x. response (callback prov (Some code) d)
                    = HTTPException 400 ''Authentication failed: '' (Some x))
          \<and> last (log (callback prov (Some code) d)) = DbRollback"
    if found: "List.find (\<lambda>u. u_email u = em) (users d) = Some usr"
      and empty: "falsy (u_google_id usr)"
      and bad: "map_of user_info ''id'' = None
              \<or> map_of user_info ''id'' = Some gid \<and> Some gid \<noteq> u_google_id usr
                \<and> google_id_taken (users d) (u_id usr) (Some gid)"
  proof -
    from bad have "\<exists>ev x. upsert_user d cr user_info em = (ev, Inl x)"
    proof
      assume "map_of user_info ''id'' = None"
      then show ?thesis
        using found empty by (simp add: upsert_user_def updated_user_def Let_def)
    next
      assume "map_of user_info ''id'' = Some gid \<and> Some gid \<noteq> u_google_id usr
                \<and> google_id_taken (users d) (u_id usr) (Some gid)"
      then show ?thesis
        using found empty by (auto simp: upsert_user_def updated_user_def Let_def)
    qed
    then obtain ev x where "upsert_user d cr user_info em = (ev, Inl x)" by blast
    then show ?thesis by (simp add: callback_def ctry)
  qed
  have F2: "db_after (callback prov (Some code) d) = d
          \<and> (\<exists>x. response (callback prov (Some code) d)
                    = HTTPException 400 ''Authentication failed: '' (Some x))
          \<and> last (log (callback prov (Some code) d)) = DbRollback"
    if absent: "List.find (\<lambda>u. u_email u = em) (users d) = None"
      and bad: "map_of user_info ''id'' = None
              \<or> map_of user_info ''id'' = Some gid
                \<and> list_ex (\<lambda>r. u_google_id r = Some gid) (users d)"
  proof -
    from bad absent have "\<exists>ev x. upsert_user d cr user_info em = (ev, Inl x)"
      by (auto simp: upsert_user_def Let_def)
    then obtain ev x where "upsert_user d cr user_info em = (ev, Inl x)" by blast
    then show ?thesis by (simp add: callback_def ctry)
  qed
  from A B F1 F2 show ?thesis by blast
qed


theorem C3_callback_upsert_witness:
  "callback provider1 (Some ''code1'') db1 =
     \<lparr>db_after = \<lparr>users = [ann_again], emails = [mail1]\<rparr>,
      response = Redirect ''/auth/success?email=ann@example.org&name=Ann'',
      log = [DbCommit]\<rparr>
   \<and> List.find (\<lambda>u. u_email u = ''ann@example.org'')
        (users (db_after (callback provider1 (Some ''code1'') db1))) = Some ann_again
   \<and> length (users (db_after (callback provider1 (Some ''code1'') db1))) = length (users db1)
   \<and> u_name ann_again = u_name ann \<and> u_google_id ann_again = u_google_id ann
   \<and> List.find (\<lambda>u. u_email u = ''ann@example.org'')
        (users (db_after (callback provider1 (Some ''code1'') \<lparr>users = [ann_blank], emails = []\<rparr>)))
       = Some ann_new
   \<and> response (callback provider1 (Some ''code1'') \<lparr>users = [ann_blank], emails = []\<rparr>)
       = Redirect ''/auth/success?email=ann@example.org&name=Ann%20B''
   \<and> users (db_after (callback provider1 (Some ''code1'') \<lparr>users = [], emails = []\<rparr>))
       = [ann_new]
   \<and> db_after (callback provider1 (Some ''code1'') \<lparr>users = [ann_blank, bob], emails = []\<rparr>)
       = \<lparr>users = [ann_blank, bob], emails = []\<rparr>
   \<and> db_after (callback provider1 (Some ''code1'') \<lparr>users = [bob], emails = []\<rparr>)
       = \<lparr>users = [bob], emails = []\<rparr>"
proof -
  have code: "''code1'' \<noteq> []" by simp
  have exch: "exchange_result provider1 ''code1''
              = Returned \<lparr>token = ''at2'', cred_refresh_token = Some ''rt2''\<rparr>"
    by (simp add: provider1_def)
  have info: "userinfo_result provider1 (token \<lparr>token = ''at2'', cred_refresh_token = Some ''rt2''\<rparr>)
              = Returned [(''id'', ''g9''), (''email'', ''ann@example.org''), (''name'', ''Ann B'')]"
    by (simp add: provider1_def)
  have mail: "map_of [(''id'', ''g9''), (''email'', ''ann@example.org''), (''name'', ''Ann B'')]
                ''email'' = Some ''ann@example.org''"
    by simp
  have found: "List.find (\<lambda>u. u_email u = ''ann@example.org'') (users db1) = Some ann"
    by (simp add: db1_def ann_def)
  have ok: "falsy (u_google_id ann) \<longrightarrow>
              map_of [(''id'', ''g9''), (''email'', ''ann@example.org''), (''name'', ''Ann B'')] ''id''
                = Some ''g9''
              \<and> \<not> google_id_taken (users db1) (u_id ann) (Some ''g9'')"
    by (simp add: falsy_def ann_def)
  have u': "ann_again = ann\<lparr>u_access_token :=
                Some (token \<lparr>token = ''at2'', cred_refresh_token = Some ''rt2''\<rparr>),
              u_refresh_token :=
                cred_refresh_token \<lparr>token = ''at2'', cred_refresh_token = Some ''rt2''\<rparr>,
              u_google_id := (if falsy (u_google_id ann) then Some ''g9'' else u_google_id ann),
              u_name := (if falsy (u_name ann)
                         then Some (dict_get
                           [(''id'', ''g9''), (''email'', ''ann@example.org''), (''name'', ''Ann B'')]
                           ''name'' [])
                         else u_name ann)\<rparr>"
    by (simp add: ann_again_def falsy_def ann_def)
  have absent: "List.find (\<lambda>u. u_email u = ''ann@example.org'')
                  (users \<lparr>users = [], emails = []\<rparr>) = None"
    by simp
  have gid: "map_of [(''id'', ''g9''), (''email'', ''ann@example.org''), (''name'', ''Ann B'')] ''id''
             = Some ''g9''"
    by simp
  have free: "\<not> list_ex (\<lambda>r. u_google_id r = Some ''g9'') (users \<lparr>users = [], emails = []\<rparr>)"
    by simp
  have run: "callback provider1 (Some ''code1'') db1 =
     \<lparr>db_after = \<lparr>users = [ann_again], emails = [mail1]\<rparr>,
      response = Redirect ''/auth/success?email=ann@example.org&name=Ann'',
      log = [DbCommit]\<rparr>"
    by code_simp
  have keep: "u_name ann_again = u_name ann \<and> u_google_id ann_again = u_google_id ann"
    by (simp add: ann_again_def)
  have new: "users (db_after (callback provider1 (Some ''code1'') \<lparr>users = [], emails = []\<rparr>))
       = [ann_new]"
    using C3_callback_upsert [OF code exch info mail, of "\<lparr>users = [], emails = []\<rparr>" ann
        "''g9''" ann_again] absent gid free
    by (simp add: ann_new_def next_id_def dict_get_def)
  have old: "List.find (\<lambda>u. u_email u = ''ann@example.org'')
        (users (db_after (callback provider1 (Some ''code1'') db1))) = Some ann_again
      \<and> length (users (db_after (callback provider1 (Some ''code1'') db1))) = length (users db1)"
    using C3_callback_upsert [OF code exch info mail, of db1 ann "''g9''" ann_again] found ok u'
    by blast
  have found_b: "List.find (\<lambda>u. u_email u = ''ann@example.org'')
                   (users \<lparr>users = [ann_blank], emails = []\<rparr>) = Some ann_blank"
    by (simp add: ann_blank_def ann_def)
  have ok_b: "falsy (u_google_id ann_blank) \<longrightarrow>
              map_of [(''id'', ''g9''), (''email'', ''ann@example.org''), (''name'', ''Ann B'')] ''id''
                = Some ''g9''
              \<and> \<not> google_id_taken (users \<lparr>users = [ann_blank], emails = []\<rparr>)
                    (u_id ann_blank) (Some ''g9'')"
    by (simp add: google_id_taken_def ann_blank_def)
  have u_b: "ann_new = ann_blank\<lparr>u_access_token :=
                Some (token \<lparr>token = ''at2'', cred_refresh_token = Some ''rt2''\<rparr>),
              u_refresh_token :=
                cred_refresh_token \<lparr>token = ''at2'', cred_refresh_token = Some ''rt2''\<rparr>,
              u_google_id := (if falsy (u_google_id ann_blank) then Some ''g9''
                              else u_google_id ann_blank),
              u_name := (if falsy (u_name ann_blank)
                         then Some (dict_get
                           [(''id'', ''g9''), (''email'', ''ann@example.org''), (''name'', ''Ann B'')]
                           ''name'' [])
                         else u_name ann_blank)\<rparr>"
    by (simp add: ann_new_def ann_blank_def falsy_def ann_def dict_get_def)
  have fill: "List.find (\<lambda>u. u_email u = ''ann@example.org'')
        (users (db_after (callback provider1 (Some ''code1'') \<lparr>users = [ann_blank], emails = []\<rparr>)))
       = Some ann_new"
    using C3_callback_upsert [OF code exch info mail,
        of "\<lparr>users = [ann_blank], emails = []\<rparr>" ann_blank "''g9''" ann_new]
      found_b ok_b u_b
    by blast
  have resp_b: "response (callback provider1 (Some ''code1'') \<lparr>users = [ann_blank], emails = []\<rparr>)
       = Redirect ''/auth/success?email=ann@example.org&name=Ann%20B''"
    by code_simp
  have found_c: "List.find (\<lambda>u. u_email u = ''ann@example.org'')
                   (users \<lparr>users = [ann_blank, bob], emails = []\<rparr>) = Some ann_blank"
    by (simp add: ann_blank_def ann_def)
  have bad_c: "falsy (u_google_id ann_blank)
       \<and> (map_of [(''id'', ''g9''), (''email'', ''ann@example.org''), (''name'', ''Ann B'')] ''id''
            = None
          \<or> map_of [(''id'', ''g9''), (''email'', ''ann@example.org''), (''name'', ''Ann B'')] ''id''
              = Some ''g9''
            \<and> Some ''g9'' \<noteq> u_google_id ann_blank
            \<and> google_id_taken (users \<lparr>users = [ann_blank, bob], emails = []\<rparr>)
                  (u_id ann_blank) (Some ''g9''))"
    by (simp add: falsy_def google_id_taken_def ann_blank_def ann_def bob_def)
  have taken: "db_after (callback provider1 (Some ''code1'')
                 \<lparr>users = [ann_blank, bob], emails = []\<rparr>)
       = \<lparr>users = [ann_blank, bob], emails = []\<rparr>"
    using C3_callback_upsert [OF code exch info mail,
        of "\<lparr>users = [ann_blank, bob], emails = []\<rparr>" ann_blank "''g9''" ann_new]
      found_c bad_c
    by blast
  have absent_d: "List.find (\<lambda>u. u_email u = ''ann@example.org'')
                   (users \<lparr>users = [bob], emails = []\<rparr>) = None"
    by (simp add: bob_def)
  have bad_d: "map_of [(''id'', ''g9''), (''email'', ''ann@example.org''), (''name'', ''Ann B'')] ''id''
            = None
          \<or> map_of [(''id'', ''g9''), (''email'', ''ann@example.org''), (''name'', ''Ann B'')] ''id''
              = Some ''g9''
            \<and> list_ex (\<lambda>r. u_google_id r = Some ''g9'') (users \<lparr>users = [bob], emails = []\<rparr>)"
    by (simp add: bob_def)
  have moved: "db_after (callback provider1 (Some ''code1'') \<lparr>users = [bob], emails = []\<rparr>)
       = \<lparr>users = [bob], emails = []\<rparr>"
    using C3_callback_upsert [OF code exch info mail,
        of "\<lparr>users = [bob], emails = []\<rparr>" bob "''g9''" ann_new]
      absent_d bad_d
    by blast
  from run old keep fill resp_b new taken moved show ?thesis by blast
qed

end
